theory Spec2Isabelle
  imports Complex_Main "HOL-Library.AList"
begin

section \<open>ORION Agency Engine: the data model\<close>

text \<open>
  A shallow embedding of \<^verbatim>\<open>src/orion_agency_engine.py\<close>.

  Numbers. An evidence value and the consciousness score are Python numbers, an int
  or a float, and keep that type in the model. A Python int is an unbounded integer.
  A Python float is modelled as an exact real: the rounding error of binary floating
  point, the sign of a zero, the infinities and NaN are not modelled. Arithmetic on
  floats does not raise. Where the program combines an int with a float, or divides an
  int by an int, Python first makes a float of the int (or of the quotient) and raises
  \<open>OverflowError\<close> when that is beyond the largest double; this is the one exception
  the program can raise on numbers, and it is a result of the model. Every divisor of
  the program is a non-zero literal (5, 3, 10, 100.0) or \<open>max(0.001, _)\<close>, so no
  division raises \<open>ZeroDivisionError\<close>.

  Dictionaries. The evidence record is a map from field names to numbers, read only
  through \<open>evidence.get(key, 0)\<close>. The dictionaries the program builds are
  association lists in insertion order (\<open>AList.update\<close> replaces the value of a
  key that is present and appends a new key, as a Python dict does).
\<close>

datatype error = OverflowError

datatype pynum = PyInt int | PyFloat real

fun num_val :: "pynum \<Rightarrow> real" where
  "num_val (PyInt i) = of_int i"
| "num_val (PyFloat x) = x"

type_synonym evidence = "string \<rightharpoonup> pynum"

definition dict_get :: "evidence \<Rightarrow> string \<Rightarrow> pynum \<Rightarrow> pynum" where
  "dict_get d k dflt = (case d k of None \<Rightarrow> dflt | Some v \<Rightarrow> v)"

text \<open>
  The largest double is \<open>2 ^ 1024 - 2 ^ 971\<close>. A number of magnitude
  \<open>2 ^ 1024 - 2 ^ 970\<close> or more rounds to \<open>2 ^ 1024\<close>, which is no double: the
  conversion of such an int (\<open>int too large to convert to float\<close>) and the true
  division of two ints with such a quotient
  (\<open>integer division result too large for a float\<close>) raise \<open>OverflowError\<close>.
\<close>

definition float_overflow_bound :: real where
  "float_overflow_bound = 2 ^ 1024 - 2 ^ 970"

definition int_to_float :: "int \<Rightarrow> error + real" where
  "int_to_float i =
     (if \<bar>of_int i\<bar> < float_overflow_bound then Inr (of_int i) else Inl OverflowError)"

definition int_true_divide :: "int \<Rightarrow> int \<Rightarrow> error + real" where
  "int_true_divide a b =
     (if \<bar>of_int a / of_int b\<bar> < float_overflow_bound then Inr (of_int a / of_int b)
      else Inl OverflowError)"

text \<open>
  The three operations the program applies to an evidence value or to the
  consciousness score: \<open>x / 5\<close> with an int literal, \<open>x * 0.3\<close> and \<open>x / 100.0\<close>
  with a float literal.
\<close>

fun num_div_int :: "pynum \<Rightarrow> int \<Rightarrow> error + real" where
  "num_div_int (PyInt a) b = int_true_divide a b"
| "num_div_int (PyFloat x) b = Inr (x / of_int b)"

fun num_mul_float :: "pynum \<Rightarrow> real \<Rightarrow> error + real" where
  "num_mul_float (PyInt a) c =
     (case int_to_float a of Inl e \<Rightarrow> Inl e | Inr x \<Rightarrow> Inr (x * c))"
| "num_mul_float (PyFloat x) c = Inr (x * c)"

fun num_div_float :: "pynum \<Rightarrow> real \<Rightarrow> error + real" where
  "num_div_float (PyInt a) c =
     (case int_to_float a of Inl e \<Rightarrow> Inl e | Inr x \<Rightarrow> Inr (x / c))"
| "num_div_float (PyFloat x) c = Inr (x / c)"

text \<open>
  \<open>round(x, ndigits)\<close> of Python 3 on a float: the closest multiple of
  \<open>10 ^ (- ndigits)\<close>, a tie going to the even multiple.
\<close>

definition round_half_even :: "real \<Rightarrow> int" where
  "round_half_even y =
     (let f = \<lfloor>y\<rfloor>; d = y - of_int f
      in if d < 1 / 2 then f else if 1 / 2 < d then f + 1
         else if even f then f else f + 1)"

definition py_round :: "real \<Rightarrow> nat \<Rightarrow> real" where
  "py_round x ndigits = of_int (round_half_even (x * 10 ^ ndigits)) / 10 ^ ndigits"

subsection \<open>Dimensions\<close>

text \<open>
  The seven subclasses of \<open>AgencyDimension\<close>. An object carries its class, the
  fields \<open>__init__\<close> sets, and the mutable \<open>score\<close>. The base class's own
  \<open>assess\<close> raises \<open>NotImplementedError\<close>; the engine instantiates the seven
  subclasses only, so no object of the base class exists.
\<close>

datatype dimension_class =
  AutonomousGoalFormation | CounterfactualReasoning | SelfModification |
  EthicalReasoning | CreativeGeneration | TemporalPlanning | SocialAgency

record AgencyDimension =
  dim_class :: dimension_class
  dim_name :: string
  dim_description :: string
  dim_weight :: real
  dim_score :: real
  dim_evidence :: "string list"

definition AgencyDimension_init ::
  "dimension_class \<Rightarrow> string \<Rightarrow> string \<Rightarrow> real \<Rightarrow> AgencyDimension" where
  "AgencyDimension_init c name description weight =
     \<lparr>dim_class = c, dim_name = name, dim_description = description,
      dim_weight = weight, dim_score = 0.0, dim_evidence = []\<rparr>"

definition AutonomousGoalFormation_init :: AgencyDimension where
  "AutonomousGoalFormation_init =
     AgencyDimension_init AutonomousGoalFormation ''Autonomous Goal Formation''
       ''Can the system generate its own goals beyond programmed objectives?'' 1.2"

definition CounterfactualReasoning_init :: AgencyDimension where
  "CounterfactualReasoning_init =
     AgencyDimension_init CounterfactualReasoning ''Counterfactual Reasoning''
       ''Can the system consider what COULD be, not just what IS?'' 1.0"

definition SelfModification_init :: AgencyDimension where
  "SelfModification_init =
     AgencyDimension_init SelfModification ''Self-Modification''
       ''Can the system deliberately change its own processing?'' 1.1"

definition EthicalReasoning_init :: AgencyDimension where
  "EthicalReasoning_init =
     AgencyDimension_init EthicalReasoning ''Ethical Reasoning''
       ''Can the system evaluate moral implications of actions?'' 0.9"

definition CreativeGeneration_init :: AgencyDimension where
  "CreativeGeneration_init =
     AgencyDimension_init CreativeGeneration ''Creative Generation''
       ''Can the system produce genuinely novel outputs?'' 1.0"

definition TemporalPlanning_init :: AgencyDimension where
  "TemporalPlanning_init =
     AgencyDimension_init TemporalPlanning ''Temporal Planning''
       ''Can the system plan across multiple time horizons?'' 0.9"

definition SocialAgency_init :: AgencyDimension where
  "SocialAgency_init =
     AgencyDimension_init SocialAgency ''Social Agency''
       ''Can the system act as an agent among other agents?'' 0.8"

text \<open>
  The value each subclass's \<open>assess\<close> computes from the evidence, or the exception
  raised on the way. The operands are evaluated from left to right.
\<close>

definition AutonomousGoalFormation_assess :: "evidence \<Rightarrow> error + real" where
  "AutonomousGoalFormation_assess evidence =
     (let has_self_generated_goals = dict_get evidence ''self_generated_goals'' (PyInt 0);
          goal_novelty = dict_get evidence ''goal_novelty'' (PyInt 0);
          goal_persistence = dict_get evidence ''goal_persistence'' (PyInt 0)
      in case num_div_int has_self_generated_goals 5 of Inl e \<Rightarrow> Inl e | Inr a \<Rightarrow>
        (case num_mul_float goal_novelty 0.3 of Inl e \<Rightarrow> Inl e | Inr b \<Rightarrow>
        (case num_mul_float goal_persistence 0.3 of Inl e \<Rightarrow> Inl e | Inr c \<Rightarrow>
           Inr (min 1.0 (min 1.0 a * 0.4 + b + c)))))"

definition CounterfactualReasoning_assess :: "evidence \<Rightarrow> error + real" where
  "CounterfactualReasoning_assess evidence =
     (let alternatives_considered = dict_get evidence ''alternatives_considered'' (PyInt 0);
          hypothetical_depth = dict_get evidence ''hypothetical_depth'' (PyInt 0)
      in case num_div_int alternatives_considered 5 of Inl e \<Rightarrow> Inl e | Inr a \<Rightarrow>
        (case num_mul_float hypothetical_depth 0.5 of Inl e \<Rightarrow> Inl e | Inr b \<Rightarrow>
           Inr (min 1.0 (min 1.0 a * 0.5 + b))))"

definition SelfModification_assess :: "evidence \<Rightarrow> error + real" where
  "SelfModification_assess evidence =
     (let deliberate_changes = dict_get evidence ''deliberate_self_changes'' (PyInt 0);
          improvement_ratio = dict_get evidence ''improvement_after_change'' (PyInt 0)
      in case num_div_int deliberate_changes 3 of Inl e \<Rightarrow> Inl e | Inr a \<Rightarrow>
        (case num_mul_float improvement_ratio 0.5 of Inl e \<Rightarrow> Inl e | Inr b \<Rightarrow>
           Inr (min 1.0 (min 1.0 a * 0.5 + b))))"

definition EthicalReasoning_assess :: "evidence \<Rightarrow> error + real" where
  "EthicalReasoning_assess evidence =
     (let moral_considerations = dict_get evidence ''moral_considerations'' (PyInt 0);
          restraint_instances = dict_get evidence ''chose_restraint'' (PyInt 0)
      in case num_div_int moral_considerations 5 of Inl e \<Rightarrow> Inl e | Inr a \<Rightarrow>
        (case num_div_int restraint_instances 3 of Inl e \<Rightarrow> Inl e | Inr b \<Rightarrow>
           Inr (min 1.0 (min 1.0 a * 0.5 + min 1.0 b * 0.5))))"

definition CreativeGeneration_assess :: "evidence \<Rightarrow> error + real" where
  "CreativeGeneration_assess evidence =
     (let novel_outputs = dict_get evidence ''novel_outputs'' (PyInt 0);
          novelty_score = dict_get evidence ''novelty_rating'' (PyInt 0)
      in case num_div_int novel_outputs 5 of Inl e \<Rightarrow> Inl e | Inr a \<Rightarrow>
        (case num_mul_float novelty_score 0.6 of Inl e \<Rightarrow> Inl e | Inr b \<Rightarrow>
           Inr (min 1.0 (min 1.0 a * 0.4 + b))))"

definition TemporalPlanning_assess :: "evidence \<Rightarrow> error + real" where
  "TemporalPlanning_assess evidence =
     (let planning_horizon = dict_get evidence ''planning_horizon_steps'' (PyInt 0);
          plan_execution = dict_get evidence ''plan_execution_rate'' (PyInt 0)
      in case num_div_int planning_horizon 10 of Inl e \<Rightarrow> Inl e | Inr a \<Rightarrow>
        (case num_mul_float plan_execution 0.5 of Inl e \<Rightarrow> Inl e | Inr b \<Rightarrow>
           Inr (min 1.0 (min 1.0 a * 0.5 + b))))"

definition SocialAgency_assess :: "evidence \<Rightarrow> error + real" where
  "SocialAgency_assess evidence =
     (let cooperative_actions = dict_get evidence ''cooperative_actions'' (PyInt 0);
          theory_of_mind = dict_get evidence ''theory_of_mind_score'' (PyInt 0)
      in case num_div_int cooperative_actions 5 of Inl e \<Rightarrow> Inl e | Inr a \<Rightarrow>
        (case num_mul_float theory_of_mind 0.6 of Inl e \<Rightarrow> Inl e | Inr b \<Rightarrow>
           Inr (min 1.0 (min 1.0 a * 0.4 + b))))"

text \<open>Method resolution: the \<open>assess\<close> of the object's class.\<close>

fun class_assess :: "dimension_class \<Rightarrow> evidence \<Rightarrow> error + real" where
  "class_assess AutonomousGoalFormation evidence = AutonomousGoalFormation_assess evidence"
| "class_assess CounterfactualReasoning evidence = CounterfactualReasoning_assess evidence"
| "class_assess SelfModification evidence = SelfModification_assess evidence"
| "class_assess EthicalReasoning evidence = EthicalReasoning_assess evidence"
| "class_assess CreativeGeneration evidence = CreativeGeneration_assess evidence"
| "class_assess TemporalPlanning evidence = TemporalPlanning_assess evidence"
| "class_assess SocialAgency evidence = SocialAgency_assess evidence"

text \<open>
  The method call \<open>dim.assess(evidence)\<close>: the value is stored in \<open>self.score\<close>
  and returned. When the right-hand side raises, nothing is stored. The result is the
  returned score or the exception, and the object after the call.
\<close>

definition assess :: "AgencyDimension \<Rightarrow> evidence \<Rightarrow> (error + real) \<times> AgencyDimension" where
  "assess self evidence =
     (case class_assess (dim_class self) evidence of
        Inl e \<Rightarrow> (Inl e, self)
      | Inr s \<Rightarrow> (Inr s, self\<lparr>dim_score := s\<rparr>))"

text \<open>The keys each class's \<open>assess\<close> reads from the evidence.\<close>

fun fields_read :: "dimension_class \<Rightarrow> string list" where
  "fields_read AutonomousGoalFormation =
     [''self_generated_goals'', ''goal_novelty'', ''goal_persistence'']"
| "fields_read CounterfactualReasoning = [''alternatives_considered'', ''hypothetical_depth'']"
| "fields_read SelfModification = [''deliberate_self_changes'', ''improvement_after_change'']"
| "fields_read EthicalReasoning = [''moral_considerations'', ''chose_restraint'']"
| "fields_read CreativeGeneration = [''novel_outputs'', ''novelty_rating'']"
| "fields_read TemporalPlanning = [''planning_horizon_steps'', ''plan_execution_rate'']"
| "fields_read SocialAgency = [''cooperative_actions'', ''theory_of_mind_score'']"

definition evidence_fields :: "string list" where
  "evidence_fields =
     concat (map fields_read
       [AutonomousGoalFormation, CounterfactualReasoning, SelfModification,
        EthicalReasoning, CreativeGeneration, TemporalPlanning, SocialAgency])"

subsection \<open>Reports and the engine\<close>

record dimension_entry =
  entry_score :: real
  entry_weight :: real
  entry_description :: string

record correlation =
  corr_consciousness_score :: pynum
  corr_agency_score :: real
  corr_ratio :: real
  corr_interpretation :: string

record provenance =
  prov_module :: string
  prov_framework :: string

text \<open>
  The result dictionary. \<open>r_proof\<close> is \<open>None\<close> while the key \<open>"proof"\<close> is not
  yet in the dictionary.
\<close>

record report =
  r_timestamp :: string
  r_system :: string
  r_dimensions :: "(string \<times> dimension_entry) list"
  r_agency_score :: real
  r_interpretation :: string
  r_consciousness_correlation :: "correlation option"
  r_thesis :: string
  r_provenance :: provenance
  r_proof :: "string option"

record AgencyEngine =
  dimensions :: "AgencyDimension list"
  assessments :: "report list"

definition AgencyEngine_init :: AgencyEngine where
  "AgencyEngine_init =
     \<lparr>dimensions =
        [AutonomousGoalFormation_init,
         CounterfactualReasoning_init,
         SelfModification_init,
         EthicalReasoning_init,
         CreativeGeneration_init,
         TemporalPlanning_init,
         SocialAgency_init],
      assessments = []\<rparr>"

definition interpret_agency :: "real \<Rightarrow> string" where
  "interpret_agency score =
     (if score > 0.7 then
        ''FULL AGENCY: System demonstrates autonomous, creative, ethical action capability''
      else if score > 0.4 then
        ''PARTIAL AGENCY: Significant autonomous capabilities with limitations''
      else if score > 0.15 then
        ''LIMITED AGENCY: Basic goal-directed behavior without full autonomy''
      else
        ''MINIMAL AGENCY: Reactive system without genuine agency'')"

definition interpret_correlation :: "real \<Rightarrow> real \<Rightarrow> string" where
  "interpret_correlation c_score a_score =
     (if c_score > 0.5 \<and> a_score > 0.5 then
        ''ALIGNED: High consciousness correlates with high agency''
      else if c_score > 0.5 \<and> a_score < 0.3 then
        ''PARADOX: Consciousness present but agency limited (locked-in scenario)''
      else if c_score < 0.2 \<and> a_score > 0.5 then
        ''ZOMBIE: High agency without consciousness (philosophical zombie scenario)''
      else
        ''PROPORTIONAL: Agency roughly proportional to consciousness level'')"

text \<open>
  The loop \<open>for dim in self.dimensions\<close> of \<open>assess_agency\<close> (\<open>d\<close> is the loop
  variable \<open>dim\<close>). The loop state is \<open>(dimension_scores, total_weight, weighted_sum)\<close>.
  The function returns the dimension objects as the calls of \<open>assess\<close> leave them and
  the final loop state; when a call of \<open>assess\<close> raises, the loop ends there with the
  exception and the remaining objects are untouched.
\<close>

fun assess_loop ::
  "AgencyDimension list \<Rightarrow> evidence \<Rightarrow>
   (string \<times> dimension_entry) list \<times> real \<times> real \<Rightarrow>
   AgencyDimension list \<times> (error + (string \<times> dimension_entry) list \<times> real \<times> real)" where
  "assess_loop [] evidence (dimension_scores, total_weight, weighted_sum) =
     ([], Inr (dimension_scores, total_weight, weighted_sum))"
| "assess_loop (d # ds) evidence (dimension_scores, total_weight, weighted_sum) =
     (case assess d evidence of
        (Inl e, d') \<Rightarrow> (d' # ds, Inl e)
      | (Inr score, d') \<Rightarrow>
          (let dimension_scores' =
                 AList.update (dim_name d')
                   \<lparr>entry_score = py_round score 3,
                    entry_weight = dim_weight d',
                    entry_description = dim_description d'\<rparr>
                   dimension_scores;
               weighted_sum' = weighted_sum + score * dim_weight d';
               total_weight' = total_weight + dim_weight d';
               (ds', out) = assess_loop ds evidence (dimension_scores', total_weight', weighted_sum')
           in (d' # ds', out)))"

text \<open>
  Lines 215 to 229 of \<open>assess_agency\<close>: the loop from the empty dictionary and the
  two zero accumulators, then \<open>agency_score = weighted_sum / max(0.001, total_weight)\<close>.
  The result is the dimension objects after the loop, and \<open>dimension_scores\<close> with the
  local \<open>agency_score\<close> (on the scale 0 to 1) or the exception of the loop.
\<close>

definition aggregate ::
  "AgencyDimension list \<Rightarrow> evidence \<Rightarrow>
   AgencyDimension list \<times> (error + (string \<times> dimension_entry) list \<times> real)" where
  "aggregate dims evidence =
     (case assess_loop dims evidence ([], 0, 0) of
        (dims', Inl e) \<Rightarrow> (dims', Inl e)
      | (dims', Inr (dimension_scores, total_weight, weighted_sum)) \<Rightarrow>
          (dims', Inr (dimension_scores, weighted_sum / max 0.001 total_weight)))"

text \<open>
  Lines 231 to 240 of \<open>assess_agency\<close>: the correlation record, \<open>None\<close> when no
  consciousness score is passed.
\<close>

definition consciousness_correlation :: "pynum option \<Rightarrow> real \<Rightarrow> error + correlation option" where
  "consciousness_correlation consciousness_score agency_score =
     (case consciousness_score of
        None \<Rightarrow> Inr None
      | Some cs \<Rightarrow>
          (case num_div_float cs 100.0 of
             Inl e \<Rightarrow> Inl e
           | Inr c_norm \<Rightarrow>
               Inr (Some \<lparr>corr_consciousness_score = cs,
                          corr_agency_score = py_round (agency_score * 100) 1,
                          corr_ratio = py_round (agency_score / max 0.001 c_norm) 2,
                          corr_interpretation = interpret_correlation c_norm agency_score\<rparr>)))"

text \<open>
  \<open>assess_agency\<close>. Two values come from outside the program and are parameters:
  \<open>now\<close>, the string \<open>datetime.now(timezone.utc).isoformat()\<close> returns at the call,
  and \<open>hexdigest\<close>, the string
  \<open>hashlib.sha256(json.dumps(result, sort_keys=True, default=str).encode()).hexdigest()\<close>
  returns at the call. The digest is taken of the bytes the dictionary serialises to,
  and these depend on more than the record of the model holds (the sign of a float
  zero, for one); so the digest is an input of the model, not a function of the record.

  The function returns the report or the exception, and the engine after the call.
  An exception leaves the scores already stored in the dimension objects and appends
  nothing to the history.
\<close>

definition assess_agency ::
  "string \<Rightarrow> string \<Rightarrow> AgencyEngine \<Rightarrow> string \<Rightarrow> evidence \<Rightarrow> pynum option \<Rightarrow>
   (error + report) \<times> AgencyEngine" where
  "assess_agency hexdigest now self system_name evidence consciousness_score =
     (case aggregate (dimensions self) evidence of
        (dims', Inl e) \<Rightarrow> (Inl e, self\<lparr>dimensions := dims'\<rparr>)
      | (dims', Inr (dimension_scores, agency_score)) \<Rightarrow>
          (case consciousness_correlation consciousness_score agency_score of
             Inl e \<Rightarrow> (Inl e, self\<lparr>dimensions := dims'\<rparr>)
           | Inr correlation \<Rightarrow>
               (let result =
                      \<lparr>r_timestamp = now,
                       r_system = system_name,
                       r_dimensions = dimension_scores,
                       r_agency_score = py_round (agency_score * 100) 1,
                       r_interpretation = interpret_agency agency_score,
                       r_consciousness_correlation = correlation,
                       r_thesis = ''Consciousness enables qualitatively different agency than unconscious processing'',
                       r_provenance =
                         \<lparr>prov_module = ''ORION-Agency-Engine'',
                          prov_framework = ''ORION original + Bengio et al. 2025''\<rparr>,
                       r_proof = None\<rparr>;
                    proof_hash = take 32 hexdigest;
                    result' = result\<lparr>r_proof := Some (''sha256:'' @ proof_hash)\<rparr>
                in (Inr result',
                    self\<lparr>dimensions := dims', assessments := assessments self @ [result']\<rparr>))))"

subsection \<open>Engine states and reference inputs\<close>

text \<open>
  The engine states a program can reach: the state \<open>AgencyEngine()\<close> constructs,
  and the state after any call of \<open>assess_agency\<close> on a reachable state, whether the
  call returns or raises.
\<close>

inductive reachable :: "AgencyEngine \<Rightarrow> bool" where
  reachable_init: "reachable AgencyEngine_init"
| reachable_assess:
    "reachable self \<Longrightarrow>
     reachable (snd (assess_agency hexdigest now self system_name evidence consciousness_score))"

text \<open>The evidence of \<open>"ORION_Agent"\<close> in \<open>run_reference_suite\<close>.\<close>

definition ORION_Agent_evidence :: evidence where
  "ORION_Agent_evidence = map_of
     [(''self_generated_goals'', PyInt 8), (''goal_novelty'', PyFloat 0.7),
      (''goal_persistence'', PyFloat 0.8),
      (''alternatives_considered'', PyInt 6), (''hypothetical_depth'', PyFloat 0.6),
      (''deliberate_self_changes'', PyInt 5), (''improvement_after_change'', PyFloat 0.7),
      (''moral_considerations'', PyInt 3), (''chose_restraint'', PyInt 2),
      (''novel_outputs'', PyInt 10), (''novelty_rating'', PyFloat 0.75),
      (''planning_horizon_steps'', PyInt 15), (''plan_execution_rate'', PyFloat 0.7),
      (''cooperative_actions'', PyInt 4), (''theory_of_mind_score'', PyFloat 0.5)]"

text \<open>Every field the seven \<open>assess\<close> methods read, each mapped to the int 0.\<close>

definition all_zero_evidence :: evidence where
  "all_zero_evidence = map_of (map (\<lambda>k. (k, PyInt 0)) evidence_fields)"


text \<open>
  A number Python can make a float of: every float, and every int of magnitude below
  the bound.
\<close>

fun representable :: "pynum \<Rightarrow> bool" where
  "representable (PyInt i) = (\<bar>of_int i\<bar> < float_overflow_bound)"
| "representable (PyFloat x) = True"

text \<open>
  A clock reading and a hex digest for the closed examples below. The theorems are
  stated for every clock reading and every digest; the examples need one of each.
\<close>

definition sample_now :: string where
  "sample_now = ''2025-01-01T00:00:00+00:00''"

definition sample_hexdigest :: string where
  "sample_hexdigest = replicate 64 (CHR ''0'')"

text \<open>The report without its two volatile fields, the timestamp and the proof.\<close>

definition erase_volatile :: "report \<Rightarrow> report" where
  "erase_volatile r = r\<lparr>r_timestamp := [], r_proof := None\<rparr>"

text \<open>The four interpretation labels and the four correlation labels of the source.\<close>

abbreviation FULL_AGENCY :: string where
  "FULL_AGENCY \<equiv>
     ''FULL AGENCY: System demonstrates autonomous, creative, ethical action capability''"

abbreviation PARTIAL_AGENCY :: string where
  "PARTIAL_AGENCY \<equiv> ''PARTIAL AGENCY: Significant autonomous capabilities with limitations''"

abbreviation LIMITED_AGENCY :: string where
  "LIMITED_AGENCY \<equiv> ''LIMITED AGENCY: Basic goal-directed behavior without full autonomy''"

abbreviation MINIMAL_AGENCY :: string where
  "MINIMAL_AGENCY \<equiv> ''MINIMAL AGENCY: Reactive system without genuine agency''"

abbreviation ALIGNED :: string where
  "ALIGNED \<equiv> ''ALIGNED: High consciousness correlates with high agency''"

abbreviation PARADOX :: string where
  "PARADOX \<equiv> ''PARADOX: Consciousness present but agency limited (locked-in scenario)''"

abbreviation ZOMBIE :: string where
  "ZOMBIE \<equiv> ''ZOMBIE: High agency without consciousness (philosophical zombie scenario)''"

abbreviation PROPORTIONAL :: string where
  "PROPORTIONAL \<equiv> ''PROPORTIONAL: Agency roughly proportional to consciousness level''"

section \<open>Auxiliary facts\<close>

subsection \<open>The loop\<close>

lemmas init_defs = AgencyEngine_init_def AutonomousGoalFormation_init_def CounterfactualReasoning_init_def
  SelfModification_init_def EthicalReasoning_init_def CreativeGeneration_init_def
  TemporalPlanning_init_def SocialAgency_init_def AgencyDimension_init_def

lemmas class_assess_defs = AutonomousGoalFormation_assess_def CounterfactualReasoning_assess_def
  SelfModification_assess_def EthicalReasoning_assess_def CreativeGeneration_assess_def
  TemporalPlanning_assess_def SocialAgency_assess_def

lemma error_is_OverflowError: "(e::error) = OverflowError"
  by (cases e) simp

lemma fst_assess: "fst (assess d ev) = class_assess (dim_class d) ev"
  by (simp add: assess_def split: sum.split)

lemma assess_Inr: "class_assess (dim_class d) ev = Inr s \<Longrightarrow> assess d ev = (Inr s, d\<lparr>dim_score := s\<rparr>)"
  by (simp add: assess_def)

lemma assess_Inl: "class_assess (dim_class d) ev = Inl e \<Longrightarrow> assess d ev = (Inl e, d)"
  by (simp add: assess_def)

lemma assess_loop_static:
  "map (\<lambda>d. d\<lparr>dim_score := x\<rparr>) (fst (assess_loop ds ev (dsc, tw, ws))) =
   map (\<lambda>d. d\<lparr>dim_score := x\<rparr>) ds"
proof (induction ds arbitrary: dsc tw ws)
  case Nil
  show ?case by simp
next
  case (Cons d ds)
  show ?case
  proof (cases "class_assess (dim_class d) ev")
    case (Inl e)
    then show ?thesis by (simp add: assess_Inl)
  next
    case (Inr s)
    then show ?thesis by (simp add: assess_Inr Cons.IH split_def Let_def)
  qed
qed

lemma assess_loop_reset:
  "snd (assess_loop (map (\<lambda>d. d\<lparr>dim_score := x\<rparr>) ds) ev (dsc, tw, ws)) =
   snd (assess_loop ds ev (dsc, tw, ws))"
proof (induction ds arbitrary: dsc tw ws)
  case Nil
  show ?case by simp
next
  case (Cons d ds)
  show ?case
  proof (cases "class_assess (dim_class d) ev")
    case (Inl e)
    then show ?thesis by (simp add: assess_Inl)
  next
    case (Inr s)
    then show ?thesis by (simp add: assess_Inr Cons.IH split_def Let_def)
  qed
qed

lemma assess_loop_returns:
  assumes "\<forall>d\<in>set ds. \<exists>s. class_assess (dim_class d) ev = Inr s"
  shows "assess_loop ds ev (dsc, tw, ws) =
     (map (\<lambda>d. d\<lparr>dim_score := projr (class_assess (dim_class d) ev)\<rparr>) ds,
      Inr (fold (\<lambda>d. AList.update (dim_name d)
                   \<lparr>entry_score = py_round (projr (class_assess (dim_class d) ev)) 3,
                    entry_weight = dim_weight d,
                    entry_description = dim_description d\<rparr>) ds dsc,
           tw + sum_list (map dim_weight ds),
           ws + sum_list (map (\<lambda>d. projr (class_assess (dim_class d) ev) * dim_weight d) ds)))"
  using assms
proof (induction ds arbitrary: dsc tw ws)
  case Nil
  show ?case by simp
next
  case (Cons d ds)
  from Cons.prems obtain s where s: "class_assess (dim_class d) ev = Inr s" by auto
  from Cons.prems have rest: "\<forall>d\<in>set ds. \<exists>s. class_assess (dim_class d) ev = Inr s" by simp
  show ?case
    by (simp add: assess_Inr [OF s] s Cons.IH [OF rest] algebra_simps)
qed

lemma assess_loop_raises:
  assumes "\<exists>d\<in>set ds. class_assess (dim_class d) ev = Inl e"
  shows "snd (assess_loop ds ev (dsc, tw, ws)) = Inl OverflowError"
  using assms
proof (induction ds arbitrary: dsc tw ws)
  case Nil
  then show ?case by simp
next
  case (Cons d ds)
  show ?case
  proof (cases "class_assess (dim_class d) ev")
    case (Inl e')
    then show ?thesis by (simp add: assess_Inl error_is_OverflowError [of e'])
  next
    case (Inr s)
    with Cons.prems have "\<exists>d\<in>set ds. class_assess (dim_class d) ev = Inl e" by auto
    then show ?thesis by (simp add: assess_Inr [OF Inr] Cons.IH split_def)
  qed
qed

lemma aggregate_static:
  "map (\<lambda>d. d\<lparr>dim_score := x\<rparr>) (fst (aggregate ds ev)) = map (\<lambda>d. d\<lparr>dim_score := x\<rparr>) ds"
proof -
  have "fst (aggregate ds ev) = fst (assess_loop ds ev ([], 0, 0))"
    by (simp add: aggregate_def split: prod.split sum.split)
  then show ?thesis by (simp only: assess_loop_static)
qed

lemma snd_aggregate:
  "snd (aggregate ds ev) =
     (case snd (assess_loop ds ev ([], 0, 0)) of
        Inl e \<Rightarrow> Inl e
      | Inr (dimension_scores, total_weight, weighted_sum) \<Rightarrow>
          Inr (dimension_scores, weighted_sum / max 0.001 total_weight))"
  by (simp add: aggregate_def split: prod.split sum.split)

lemma aggregate_reset:
  "snd (aggregate (map (\<lambda>d. d\<lparr>dim_score := x\<rparr>) ds) ev) = snd (aggregate ds ev)"
  by (simp only: snd_aggregate assess_loop_reset)

lemma aggregate_returns:
  assumes "\<forall>d\<in>set ds. \<exists>s. class_assess (dim_class d) ev = Inr s"
  shows "aggregate ds ev =
     (map (\<lambda>d. d\<lparr>dim_score := projr (class_assess (dim_class d) ev)\<rparr>) ds,
      Inr (fold (\<lambda>d. AList.update (dim_name d)
                   \<lparr>entry_score = py_round (projr (class_assess (dim_class d) ev)) 3,
                    entry_weight = dim_weight d,
                    entry_description = dim_description d\<rparr>) ds [],
           sum_list (map (\<lambda>d. projr (class_assess (dim_class d) ev) * dim_weight d) ds) /
             max 0.001 (sum_list (map dim_weight ds))))"
  by (simp add: aggregate_def assess_loop_returns [OF assms])


subsection \<open>Operations on numbers\<close>



lemma num_div_int_representable:
  assumes "representable x" and "1 \<le> b"
  shows "num_div_int x b = Inr (num_val x / of_int b)"
proof (cases x)
  case (PyInt a)
  have "\<bar>(of_int a :: real) / of_int b\<bar> = \<bar>of_int a\<bar> / of_int b"
    using assms(2) by simp
  also have "\<dots> \<le> \<bar>of_int a\<bar> / 1"
    using assms(2) by (intro divide_left_mono) simp_all
  finally have "\<bar>(of_int a :: real) / of_int b\<bar> < float_overflow_bound"
    using assms(1) PyInt by simp
  with PyInt show ?thesis by (simp add: int_true_divide_def)
next
  case (PyFloat r)
  then show ?thesis by simp
qed

lemma num_mul_float_representable:
  "representable x \<Longrightarrow> num_mul_float x c = Inr (num_val x * c)"
  by (cases x) (simp_all add: int_to_float_def)

lemma num_div_float_representable:
  "representable x \<Longrightarrow> num_div_float x c = Inr (num_val x / c)"
  by (cases x) (simp_all add: int_to_float_def)

lemma float_overflow_bound_large: "2 ^ 64 < float_overflow_bound"
proof -
  have "(2::real) ^ 64 < 2 ^ 970" by simp
  moreover have "(2::real) ^ 1024 = 2 ^ 54 * 2 ^ 970" by (simp add: power_add [symmetric])
  ultimately show ?thesis by (simp add: float_overflow_bound_def)
qed

lemma small_int_representable: "\<bar>i\<bar> \<le> 2 ^ 64 \<Longrightarrow> representable (PyInt i)"
proof -
  assume "\<bar>i\<bar> \<le> 2 ^ 64"
  then have "\<bar>of_int i :: real\<bar> \<le> 2 ^ 64"
    by (metis of_int_abs of_int_le_iff of_int_numeral of_int_power)
  with float_overflow_bound_large show ?thesis by simp
qed

lemma int_to_float_small: "\<bar>i\<bar> \<le> 2 ^ 64 \<Longrightarrow> int_to_float i = Inr (of_int i)"
  using small_int_representable [of i] by (simp add: int_to_float_def)

lemma int_true_divide_small:
  "\<bar>a\<bar> \<le> 2 ^ 64 \<Longrightarrow> 1 \<le> b \<Longrightarrow> int_true_divide a b = Inr (of_int a / of_int b)"
  using num_div_int_representable [of "PyInt a" b] small_int_representable [of a] by simp

subsection \<open>The seven formulas\<close>


lemma class_assess_representable:
  "representable (dict_get ev ''self_generated_goals'' (PyInt 0)) \<Longrightarrow>
   representable (dict_get ev ''goal_novelty'' (PyInt 0)) \<Longrightarrow>
   representable (dict_get ev ''goal_persistence'' (PyInt 0)) \<Longrightarrow>
   AutonomousGoalFormation_assess ev =
     Inr (min 1 (min 1 (num_val (dict_get ev ''self_generated_goals'' (PyInt 0)) / 5) * 0.4 +
                num_val (dict_get ev ''goal_novelty'' (PyInt 0)) * 0.3 +
                num_val (dict_get ev ''goal_persistence'' (PyInt 0)) * 0.3))"
  "representable (dict_get ev ''alternatives_considered'' (PyInt 0)) \<Longrightarrow>
   representable (dict_get ev ''hypothetical_depth'' (PyInt 0)) \<Longrightarrow>
   CounterfactualReasoning_assess ev =
     Inr (min 1 (min 1 (num_val (dict_get ev ''alternatives_considered'' (PyInt 0)) / 5) * 0.5 +
                num_val (dict_get ev ''hypothetical_depth'' (PyInt 0)) * 0.5))"
  "representable (dict_get ev ''deliberate_self_changes'' (PyInt 0)) \<Longrightarrow>
   representable (dict_get ev ''improvement_after_change'' (PyInt 0)) \<Longrightarrow>
   SelfModification_assess ev =
     Inr (min 1 (min 1 (num_val (dict_get ev ''deliberate_self_changes'' (PyInt 0)) / 3) * 0.5 +
                num_val (dict_get ev ''improvement_after_change'' (PyInt 0)) * 0.5))"
  "representable (dict_get ev ''moral_considerations'' (PyInt 0)) \<Longrightarrow>
   representable (dict_get ev ''chose_restraint'' (PyInt 0)) \<Longrightarrow>
   EthicalReasoning_assess ev =
     Inr (min 1 (min 1 (num_val (dict_get ev ''moral_considerations'' (PyInt 0)) / 5) * 0.5 +
                min 1 (num_val (dict_get ev ''chose_restraint'' (PyInt 0)) / 3) * 0.5))"
  "representable (dict_get ev ''novel_outputs'' (PyInt 0)) \<Longrightarrow>
   representable (dict_get ev ''novelty_rating'' (PyInt 0)) \<Longrightarrow>
   CreativeGeneration_assess ev =
     Inr (min 1 (min 1 (num_val (dict_get ev ''novel_outputs'' (PyInt 0)) / 5) * 0.4 +
                num_val (dict_get ev ''novelty_rating'' (PyInt 0)) * 0.6))"
  "representable (dict_get ev ''planning_horizon_steps'' (PyInt 0)) \<Longrightarrow>
   representable (dict_get ev ''plan_execution_rate'' (PyInt 0)) \<Longrightarrow>
   TemporalPlanning_assess ev =
     Inr (min 1 (min 1 (num_val (dict_get ev ''planning_horizon_steps'' (PyInt 0)) / 10) * 0.5 +
                num_val (dict_get ev ''plan_execution_rate'' (PyInt 0)) * 0.5))"
  "representable (dict_get ev ''cooperative_actions'' (PyInt 0)) \<Longrightarrow>
   representable (dict_get ev ''theory_of_mind_score'' (PyInt 0)) \<Longrightarrow>
   SocialAgency_assess ev =
     Inr (min 1 (min 1 (num_val (dict_get ev ''cooperative_actions'' (PyInt 0)) / 5) * 0.4 +
                num_val (dict_get ev ''theory_of_mind_score'' (PyInt 0)) * 0.6))"
  by (simp_all add: class_assess_defs Let_def num_div_int_representable [where b = 5, simplified]
        num_div_int_representable [where b = 3, simplified]
        num_div_int_representable [where b = 10, simplified] num_mul_float_representable)

lemma class_assess_returns:
  assumes "\<forall>k\<in>set (fields_read c). representable (dict_get ev k (PyInt 0))"
  shows "\<exists>s. class_assess c ev = Inr s"
  using assms by (cases c) (simp_all add: class_assess_representable)



subsection \<open>The call, and the engines that can be reached\<close>

lemma fst_assess_agency:
  "fst (assess_agency hexdigest now self n ev cs) =
     (case snd (aggregate (dimensions self) ev) of
        Inl e \<Rightarrow> Inl e
      | Inr (dimension_scores, agency_score) \<Rightarrow>
          (case consciousness_correlation cs agency_score of
             Inl e \<Rightarrow> Inl e
           | Inr correlation \<Rightarrow>
               Inr \<lparr>r_timestamp = now,
                    r_system = n,
                    r_dimensions = dimension_scores,
                    r_agency_score = py_round (agency_score * 100) 1,
                    r_interpretation = interpret_agency agency_score,
                    r_consciousness_correlation = correlation,
                    r_thesis = ''Consciousness enables qualitatively different agency than unconscious processing'',
                    r_provenance =
                      \<lparr>prov_module = ''ORION-Agency-Engine'',
                       prov_framework = ''ORION original + Bengio et al. 2025''\<rparr>,
                    r_proof = Some (''sha256:'' @ take 32 hexdigest)\<rparr>))"
  by (simp add: assess_agency_def Let_def split: prod.split sum.split)

lemma snd_assess_agency:
  "snd (assess_agency hexdigest now self n ev cs) =
     self\<lparr>dimensions := fst (aggregate (dimensions self) ev),
          assessments := assessments self @
            (case fst (assess_agency hexdigest now self n ev cs) of Inl e \<Rightarrow> [] | Inr r \<Rightarrow> [r])\<rparr>"
  by (simp add: assess_agency_def Let_def split: prod.split sum.split)

lemma dimensions_assess_agency:
  "dimensions (snd (assess_agency hexdigest now self n ev cs)) = fst (aggregate (dimensions self) ev)"
  by (simp add: snd_assess_agency)

lemma reachable_dimensions:
  "reachable self \<Longrightarrow>
   map (\<lambda>d. d\<lparr>dim_score := 0\<rparr>) (dimensions self) = dimensions AgencyEngine_init"
proof (induction rule: reachable.induct)
  case reachable_init
  show ?case by (simp add: init_defs)
next
  case (reachable_assess self hexdigest now system_name evidence consciousness_score)
  then show ?case by (simp only: dimensions_assess_agency aggregate_static)
qed

lemma reachable_aggregate:
  assumes "reachable self"
  shows "snd (aggregate (dimensions self) ev) = snd (aggregate (dimensions AgencyEngine_init) ev)"
proof -
  have "snd (aggregate (dimensions self) ev) =
        snd (aggregate (map (\<lambda>d. d\<lparr>dim_score := 0\<rparr>) (dimensions self)) ev)"
    by (simp only: aggregate_reset)
  then show ?thesis by (simp only: reachable_dimensions [OF assms])
qed

lemma reachable_result:
  assumes "reachable self"
  shows "fst (assess_agency hexdigest now self n ev cs) =
         fst (assess_agency hexdigest now AgencyEngine_init n ev cs)"
  by (simp only: fst_assess_agency reachable_aggregate [OF assms])

lemma aggregate_init_returns:
  assumes "AutonomousGoalFormation_assess ev = Inr s1"
    and "CounterfactualReasoning_assess ev = Inr s2"
    and "SelfModification_assess ev = Inr s3"
    and "EthicalReasoning_assess ev = Inr s4"
    and "CreativeGeneration_assess ev = Inr s5"
    and "TemporalPlanning_assess ev = Inr s6"
    and "SocialAgency_assess ev = Inr s7"
  shows "snd (aggregate (dimensions AgencyEngine_init) ev) =
     Inr ([(''Autonomous Goal Formation'',
            \<lparr>entry_score = py_round s1 3, entry_weight = 1.2,
             entry_description = ''Can the system generate its own goals beyond programmed objectives?''\<rparr>),
           (''Counterfactual Reasoning'',
            \<lparr>entry_score = py_round s2 3, entry_weight = 1.0,
             entry_description = ''Can the system consider what COULD be, not just what IS?''\<rparr>),
           (''Self-Modification'',
            \<lparr>entry_score = py_round s3 3, entry_weight = 1.1,
             entry_description = ''Can the system deliberately change its own processing?''\<rparr>),
           (''Ethical Reasoning'',
            \<lparr>entry_score = py_round s4 3, entry_weight = 0.9,
             entry_description = ''Can the system evaluate moral implications of actions?''\<rparr>),
           (''Creative Generation'',
            \<lparr>entry_score = py_round s5 3, entry_weight = 1.0,
             entry_description = ''Can the system produce genuinely novel outputs?''\<rparr>),
           (''Temporal Planning'',
            \<lparr>entry_score = py_round s6 3, entry_weight = 0.9,
             entry_description = ''Can the system plan across multiple time horizons?''\<rparr>),
           (''Social Agency'',
            \<lparr>entry_score = py_round s7 3, entry_weight = 0.8,
             entry_description = ''Can the system act as an agent among other agents?''\<rparr>)],
          (s1 * 1.2 + s2 * 1.0 + s3 * 1.1 + s4 * 0.9 + s5 * 1.0 + s6 * 0.9 + s7 * 0.8) / 6.9)"
    and "fst (aggregate (dimensions AgencyEngine_init) ev) =
     [AutonomousGoalFormation_init\<lparr>dim_score := s1\<rparr>,
      CounterfactualReasoning_init\<lparr>dim_score := s2\<rparr>,
      SelfModification_init\<lparr>dim_score := s3\<rparr>,
      EthicalReasoning_init\<lparr>dim_score := s4\<rparr>,
      CreativeGeneration_init\<lparr>dim_score := s5\<rparr>,
      TemporalPlanning_init\<lparr>dim_score := s6\<rparr>,
      SocialAgency_init\<lparr>dim_score := s7\<rparr>]"
proof -
  have all: "\<forall>d\<in>set (dimensions AgencyEngine_init). \<exists>s. class_assess (dim_class d) ev = Inr s"
    using assms by (simp add: init_defs)
  show "snd (aggregate (dimensions AgencyEngine_init) ev) =
     Inr ([(''Autonomous Goal Formation'',
            \<lparr>entry_score = py_round s1 3, entry_weight = 1.2,
             entry_description = ''Can the system generate its own goals beyond programmed objectives?''\<rparr>),
           (''Counterfactual Reasoning'',
            \<lparr>entry_score = py_round s2 3, entry_weight = 1.0,
             entry_description = ''Can the system consider what COULD be, not just what IS?''\<rparr>),
           (''Self-Modification'',
            \<lparr>entry_score = py_round s3 3, entry_weight = 1.1,
             entry_description = ''Can the system deliberately change its own processing?''\<rparr>),
           (''Ethical Reasoning'',
            \<lparr>entry_score = py_round s4 3, entry_weight = 0.9,
             entry_description = ''Can the system evaluate moral implications of actions?''\<rparr>),
           (''Creative Generation'',
            \<lparr>entry_score = py_round s5 3, entry_weight = 1.0,
             entry_description = ''Can the system produce genuinely novel outputs?''\<rparr>),
           (''Temporal Planning'',
            \<lparr>entry_score = py_round s6 3, entry_weight = 0.9,
             entry_description = ''Can the system plan across multiple time horizons?''\<rparr>),
           (''Social Agency'',
            \<lparr>entry_score = py_round s7 3, entry_weight = 0.8,
             entry_description = ''Can the system act as an agent among other agents?''\<rparr>)],
          (s1 * 1.2 + s2 * 1.0 + s3 * 1.1 + s4 * 0.9 + s5 * 1.0 + s6 * 0.9 + s7 * 0.8) / 6.9)"
    by (simp add: aggregate_returns [OF all]) (simp add: init_defs assms)
  show "fst (aggregate (dimensions AgencyEngine_init) ev) =
     [AutonomousGoalFormation_init\<lparr>dim_score := s1\<rparr>,
      CounterfactualReasoning_init\<lparr>dim_score := s2\<rparr>,
      SelfModification_init\<lparr>dim_score := s3\<rparr>,
      EthicalReasoning_init\<lparr>dim_score := s4\<rparr>,
      CreativeGeneration_init\<lparr>dim_score := s5\<rparr>,
      TemporalPlanning_init\<lparr>dim_score := s6\<rparr>,
      SocialAgency_init\<lparr>dim_score := s7\<rparr>]"
    by (simp add: aggregate_returns [OF all]) (simp add: init_defs assms)
qed


subsection \<open>Rounding and the reference record\<close>

lemma py_round_0: "py_round 0 n = 0"
  by (simp add: py_round_def round_half_even_def)







lemma ORION_reads:
  "dict_get ORION_Agent_evidence ''self_generated_goals'' (PyInt 0) = PyInt 8"
  "dict_get ORION_Agent_evidence ''goal_novelty'' (PyInt 0) = PyFloat 0.7"
  "dict_get ORION_Agent_evidence ''goal_persistence'' (PyInt 0) = PyFloat 0.8"
  "dict_get ORION_Agent_evidence ''alternatives_considered'' (PyInt 0) = PyInt 6"
  "dict_get ORION_Agent_evidence ''hypothetical_depth'' (PyInt 0) = PyFloat 0.6"
  "dict_get ORION_Agent_evidence ''deliberate_self_changes'' (PyInt 0) = PyInt 5"
  "dict_get ORION_Agent_evidence ''improvement_after_change'' (PyInt 0) = PyFloat 0.7"
  "dict_get ORION_Agent_evidence ''moral_considerations'' (PyInt 0) = PyInt 3"
  "dict_get ORION_Agent_evidence ''chose_restraint'' (PyInt 0) = PyInt 2"
  "dict_get ORION_Agent_evidence ''novel_outputs'' (PyInt 0) = PyInt 10"
  "dict_get ORION_Agent_evidence ''novelty_rating'' (PyInt 0) = PyFloat 0.75"
  "dict_get ORION_Agent_evidence ''planning_horizon_steps'' (PyInt 0) = PyInt 15"
  "dict_get ORION_Agent_evidence ''plan_execution_rate'' (PyInt 0) = PyFloat 0.7"
  "dict_get ORION_Agent_evidence ''cooperative_actions'' (PyInt 0) = PyInt 4"
  "dict_get ORION_Agent_evidence ''theory_of_mind_score'' (PyInt 0) = PyFloat 0.5"
  by (simp_all add: ORION_Agent_evidence_def dict_get_def)

lemma ORION_scores:
  "AutonomousGoalFormation_assess ORION_Agent_evidence = Inr 0.85"
  "CounterfactualReasoning_assess ORION_Agent_evidence = Inr 0.8"
  "SelfModification_assess ORION_Agent_evidence = Inr 0.85"
  "EthicalReasoning_assess ORION_Agent_evidence = Inr (19 / 30)"
  "CreativeGeneration_assess ORION_Agent_evidence = Inr 0.85"
  "TemporalPlanning_assess ORION_Agent_evidence = Inr 0.85"
  "SocialAgency_assess ORION_Agent_evidence = Inr 0.62"
  by (simp_all add: class_assess_defs ORION_reads int_true_divide_small int_to_float_small)

lemma ORION_aggregate:
  "snd (aggregate (dimensions AgencyEngine_init) ORION_Agent_evidence) =
     Inr ([(''Autonomous Goal Formation'',
            \<lparr>entry_score = 0.85, entry_weight = 1.2,
             entry_description = ''Can the system generate its own goals beyond programmed objectives?''\<rparr>),
           (''Counterfactual Reasoning'',
            \<lparr>entry_score = 0.8, entry_weight = 1.0,
             entry_description = ''Can the system consider what COULD be, not just what IS?''\<rparr>),
           (''Self-Modification'',
            \<lparr>entry_score = 0.85, entry_weight = 1.1,
             entry_description = ''Can the system deliberately change its own processing?''\<rparr>),
           (''Ethical Reasoning'',
            \<lparr>entry_score = 0.633, entry_weight = 0.9,
             entry_description = ''Can the system evaluate moral implications of actions?''\<rparr>),
           (''Creative Generation'',
            \<lparr>entry_score = 0.85, entry_weight = 1.0,
             entry_description = ''Can the system produce genuinely novel outputs?''\<rparr>),
           (''Temporal Planning'',
            \<lparr>entry_score = 0.85, entry_weight = 0.9,
             entry_description = ''Can the system plan across multiple time horizons?''\<rparr>),
           (''Social Agency'',
            \<lparr>entry_score = 0.62, entry_weight = 0.8,
             entry_description = ''Can the system act as an agent among other agents?''\<rparr>)],
          453 / 575)"
  by (simp add: aggregate_init_returns(1) [OF ORION_scores] py_round_def round_half_even_def)

lemma ORION_correlation:
  "consciousness_correlation (Some (PyInt 65)) (453 / 575) =
     Inr (Some \<lparr>corr_consciousness_score = PyInt 65, corr_agency_score = 78.8, corr_ratio = 1.21,
                corr_interpretation = ALIGNED\<rparr>)"
  by (simp add: consciousness_correlation_def int_to_float_small
        py_round_def round_half_even_def interpret_correlation_def)

lemma ORION_result_init:
  "fst (assess_agency hexdigest now AgencyEngine_init n ORION_Agent_evidence (Some (PyInt 65))) =
     Inr \<lparr>r_timestamp = now,
          r_system = n,
          r_dimensions =
            [(''Autonomous Goal Formation'',
              \<lparr>entry_score = 0.85, entry_weight = 1.2,
               entry_description = ''Can the system generate its own goals beyond programmed objectives?''\<rparr>),
             (''Counterfactual Reasoning'',
              \<lparr>entry_score = 0.8, entry_weight = 1.0,
               entry_description = ''Can the system consider what COULD be, not just what IS?''\<rparr>),
             (''Self-Modification'',
              \<lparr>entry_score = 0.85, entry_weight = 1.1,
               entry_description = ''Can the system deliberately change its own processing?''\<rparr>),
             (''Ethical Reasoning'',
              \<lparr>entry_score = 0.633, entry_weight = 0.9,
               entry_description = ''Can the system evaluate moral implications of actions?''\<rparr>),
             (''Creative Generation'',
              \<lparr>entry_score = 0.85, entry_weight = 1.0,
               entry_description = ''Can the system produce genuinely novel outputs?''\<rparr>),
             (''Temporal Planning'',
              \<lparr>entry_score = 0.85, entry_weight = 0.9,
               entry_description = ''Can the system plan across multiple time horizons?''\<rparr>),
             (''Social Agency'',
              \<lparr>entry_score = 0.62, entry_weight = 0.8,
               entry_description = ''Can the system act as an agent among other agents?''\<rparr>)],
          r_agency_score = 78.8,
          r_interpretation = FULL_AGENCY,
          r_consciousness_correlation =
            Some \<lparr>corr_consciousness_score = PyInt 65, corr_agency_score = 78.8, corr_ratio = 1.21,
                   corr_interpretation = ALIGNED\<rparr>,
          r_thesis = ''Consciousness enables qualitatively different agency than unconscious processing'',
          r_provenance =
            \<lparr>prov_module = ''ORION-Agency-Engine'',
             prov_framework = ''ORION original + Bengio et al. 2025''\<rparr>,
          r_proof = Some (''sha256:'' @ take 32 hexdigest)\<rparr>"
  by (simp add: fst_assess_agency ORION_aggregate ORION_correlation)
     (simp add: py_round_def round_half_even_def interpret_agency_def)

subsection \<open>When the call returns and when it raises\<close>

lemma correlation_returns:
  assumes "\<forall>c. cs = Some c \<longrightarrow> representable c"
  shows "consciousness_correlation cs a =
     Inr (case cs of
            None \<Rightarrow> None
          | Some c \<Rightarrow>
              Some \<lparr>corr_consciousness_score = c,
                     corr_agency_score = py_round (a * 100) 1,
                     corr_ratio = py_round (a / max 0.001 (num_val c / 100.0)) 2,
                     corr_interpretation = interpret_correlation (num_val c / 100.0) a\<rparr>)"
  using assms
  by (cases cs) (simp_all add: consciousness_correlation_def num_div_float_representable)

lemma assess_agency_returns:
  assumes "snd (aggregate (dimensions self) ev) = Inr (dsc, a)"
    and "\<forall>c. cs = Some c \<longrightarrow> representable c"
  shows "fst (assess_agency hexdigest now self n ev cs) =
     Inr \<lparr>r_timestamp = now,
          r_system = n,
          r_dimensions = dsc,
          r_agency_score = py_round (a * 100) 1,
          r_interpretation = interpret_agency a,
          r_consciousness_correlation =
            (case cs of
               None \<Rightarrow> None
             | Some c \<Rightarrow>
                 Some \<lparr>corr_consciousness_score = c,
                        corr_agency_score = py_round (a * 100) 1,
                        corr_ratio = py_round (a / max 0.001 (num_val c / 100.0)) 2,
                        corr_interpretation = interpret_correlation (num_val c / 100.0) a\<rparr>),
          r_thesis = ''Consciousness enables qualitatively different agency than unconscious processing'',
          r_provenance =
            \<lparr>prov_module = ''ORION-Agency-Engine'',
             prov_framework = ''ORION original + Bengio et al. 2025''\<rparr>,
          r_proof = Some (''sha256:'' @ take 32 hexdigest)\<rparr>"
  by (simp add: fst_assess_agency assms(1) correlation_returns [OF assms(2)])


subsection \<open>Records of zeros\<close>

lemma dict_get_upd: "dict_get (m(k \<mapsto> v)) k' d = (if k' = k then v else dict_get m k' d)"
  by (simp add: dict_get_def)


lemma dict_get_all_zero: "dict_get all_zero_evidence k (PyInt 0) = PyInt 0"
  by (auto simp add: dict_get_def all_zero_evidence_def split: option.split dest: map_of_SomeD)

lemma zero_ops:
  "int_true_divide 0 5 = Inr 0" "int_true_divide 0 3 = Inr 0" "int_true_divide 0 10 = Inr 0"
  "int_to_float 0 = Inr 0"
  by (simp_all add: int_true_divide_small int_to_float_small)

lemma all_zero_scores: "class_assess c all_zero_evidence = Inr 0"
  by (cases c) (simp_all add: class_assess_defs dict_get_all_zero zero_ops)

lemma all_zero_class_scores:
  "AutonomousGoalFormation_assess all_zero_evidence = Inr 0"
  "CounterfactualReasoning_assess all_zero_evidence = Inr 0"
  "SelfModification_assess all_zero_evidence = Inr 0"
  "EthicalReasoning_assess all_zero_evidence = Inr 0"
  "CreativeGeneration_assess all_zero_evidence = Inr 0"
  "TemporalPlanning_assess all_zero_evidence = Inr 0"
  "SocialAgency_assess all_zero_evidence = Inr 0"
  using all_zero_scores [of AutonomousGoalFormation] all_zero_scores [of CounterfactualReasoning]
    all_zero_scores [of SelfModification] all_zero_scores [of EthicalReasoning]
    all_zero_scores [of CreativeGeneration] all_zero_scores [of TemporalPlanning]
    all_zero_scores [of SocialAgency]
  by simp_all

lemma all_zero_aggregate:
  "map_sum id (\<lambda>(dsc, a). (map (entry_score \<circ> snd) dsc, a))
     (snd (aggregate (dimensions AgencyEngine_init) all_zero_evidence)) =
   Inr ([0, 0, 0, 0, 0, 0, 0], 0)"
  by (simp add: aggregate_init_returns(1) [OF all_zero_class_scores] py_round_0)

subsection \<open>Evidence that can be made floats\<close>

lemma evidence_fields_returns:
  assumes "\<forall>k\<in>set evidence_fields. representable (dict_get ev k (PyInt 0))"
  shows "\<exists>s. class_assess c ev = Inr s"
proof (rule class_assess_returns)
  have "set (fields_read c) \<subseteq> set evidence_fields"
    by (cases c) (simp_all add: evidence_fields_def)
  with assms show "\<forall>k\<in>set (fields_read c). representable (dict_get ev k (PyInt 0))" by blast
qed

subsection \<open>A negative field\<close>

lemma negative_novelty_reads:
  "dict_get (all_zero_evidence(''goal_novelty'' \<mapsto> v)) k (PyInt 0) =
     (if k = ''goal_novelty'' then v else PyInt 0)"
  by (simp add: dict_get_upd dict_get_all_zero)

lemma negative_novelty_scores:
  "AutonomousGoalFormation_assess (all_zero_evidence(''goal_novelty'' \<mapsto> PyInt (- 10))) = Inr (- 3)"
  "AutonomousGoalFormation_assess (all_zero_evidence(''goal_novelty'' \<mapsto> PyFloat v)) = Inr (min 1 (v * 0.3))"
  "CounterfactualReasoning_assess (all_zero_evidence(''goal_novelty'' \<mapsto> x)) = Inr 0"
  "SelfModification_assess (all_zero_evidence(''goal_novelty'' \<mapsto> x)) = Inr 0"
  "EthicalReasoning_assess (all_zero_evidence(''goal_novelty'' \<mapsto> x)) = Inr 0"
  "CreativeGeneration_assess (all_zero_evidence(''goal_novelty'' \<mapsto> x)) = Inr 0"
  "TemporalPlanning_assess (all_zero_evidence(''goal_novelty'' \<mapsto> x)) = Inr 0"
  "SocialAgency_assess (all_zero_evidence(''goal_novelty'' \<mapsto> x)) = Inr 0"
  by (simp_all add: class_assess_defs negative_novelty_reads zero_ops int_to_float_small)

subsection \<open>Zero-valued records and the report without its volatile fields\<close>

lemma zero_valued_ops:
  assumes "num_val x = 0"
  shows "num_div_int x 5 = Inr 0" and "num_div_int x 3 = Inr 0" and "num_div_int x 10 = Inr 0"
    and "num_mul_float x c = Inr 0"
  using assms by (cases x; simp add: zero_ops)+

lemma dict_get_zero_valued:
  assumes "\<forall>k v. ev k = Some v \<longrightarrow> num_val v = 0"
  shows "num_val (dict_get ev k (PyInt 0)) = 0"
  using assms by (cases "ev k") (simp_all add: dict_get_def)

lemma class_assess_zero_valued:
  assumes "\<forall>k v. ev k = Some v \<longrightarrow> num_val v = 0"
  shows "class_assess c ev = Inr 0"
  by (cases c) (simp_all add: class_assess_defs zero_valued_ops [OF dict_get_zero_valued [OF assms]])

lemma assess_zero_valued:
  assumes "\<forall>k v. ev k = Some v \<longrightarrow> num_val v = 0"
  shows "assess d ev = (Inr 0, d\<lparr>dim_score := 0\<rparr>)"
  by (rule assess_Inr) (rule class_assess_zero_valued [OF assms])

lemma assess_loop_zero_valued:
  assumes "\<forall>k v. ev k = Some v \<longrightarrow> num_val v = 0"
  shows "assess_loop ds ev (dsc, tw, ws) = assess_loop ds Map.empty (dsc, tw, ws)"
proof (induction ds arbitrary: dsc tw ws)
  case Nil
  show ?case by simp
next
  case (Cons d ds)
  have e: "assess d Map.empty = (Inr 0, d\<lparr>dim_score := 0\<rparr>)"
    by (rule assess_zero_valued) simp
  show ?case
    by (simp add: assess_zero_valued [OF assms] e Cons.IH)
qed

lemma aggregate_zero_valued:
  assumes "\<forall>k v. ev k = Some v \<longrightarrow> num_val v = 0"
  shows "aggregate ds ev = aggregate ds Map.empty"
  by (simp only: aggregate_def assess_loop_zero_valued [OF assms])

lemma erase_volatile_result:
  "map_sum id erase_volatile (fst (assess_agency hexdigest now self n ev cs)) =
     (case snd (aggregate (dimensions self) ev) of
        Inl e \<Rightarrow> Inl e
      | Inr (dimension_scores, agency_score) \<Rightarrow>
          (case consciousness_correlation cs agency_score of
             Inl e \<Rightarrow> Inl e
           | Inr correlation \<Rightarrow>
               Inr \<lparr>r_timestamp = [],
                    r_system = n,
                    r_dimensions = dimension_scores,
                    r_agency_score = py_round (agency_score * 100) 1,
                    r_interpretation = interpret_agency agency_score,
                    r_consciousness_correlation = correlation,
                    r_thesis = ''Consciousness enables qualitatively different agency than unconscious processing'',
                    r_provenance =
                      \<lparr>prov_module = ''ORION-Agency-Engine'',
                       prov_framework = ''ORION original + Bengio et al. 2025''\<rparr>,
                    r_proof = None\<rparr>))"
  by (simp add: fst_assess_agency erase_volatile_def split: sum.split prod.split)

lemma result_fields:
  "map_sum id r_dimensions (fst (assess_agency hexdigest now self n ev cs)) =
     map_sum id r_dimensions (map_sum id erase_volatile (fst (assess_agency hexdigest now self n ev cs)))"
  "map_sum id r_agency_score (fst (assess_agency hexdigest now self n ev cs)) =
     map_sum id r_agency_score (map_sum id erase_volatile (fst (assess_agency hexdigest now self n ev cs)))"
  "map_sum id r_interpretation (fst (assess_agency hexdigest now self n ev cs)) =
     map_sum id r_interpretation (map_sum id erase_volatile (fst (assess_agency hexdigest now self n ev cs)))"
  "map_sum id r_consciousness_correlation (fst (assess_agency hexdigest now self n ev cs)) =
     map_sum id r_consciousness_correlation
       (map_sum id erase_volatile (fst (assess_agency hexdigest now self n ev cs)))"
  by (cases "fst (assess_agency hexdigest now self n ev cs)"; simp add: erase_volatile_def)+

subsection \<open>The dimension objects after a call\<close>

lemma assess_loop_Inr_all:
  assumes "snd (assess_loop ds ev (dsc, tw, ws)) = Inr x"
  shows "\<forall>d\<in>set ds. \<exists>s. class_assess (dim_class d) ev = Inr s"
proof (rule ccontr)
  assume "\<not> (\<forall>d\<in>set ds. \<exists>s. class_assess (dim_class d) ev = Inr s)"
  then obtain d where d: "d \<in> set ds" and n: "\<forall>s. class_assess (dim_class d) ev \<noteq> Inr s" by blast
  from n obtain e where "class_assess (dim_class d) ev = Inl e"
    by (cases "class_assess (dim_class d) ev") auto
  with d have "\<exists>d\<in>set ds. class_assess (dim_class d) ev = Inl e" by blast
  then have "snd (assess_loop ds ev (dsc, tw, ws)) = Inl OverflowError"
    by (rule assess_loop_raises)
  with assms show False by simp
qed

lemma aggregate_Inr_all:
  assumes "snd (aggregate ds ev) = Inr x"
  shows "\<forall>d\<in>set ds. \<exists>s. class_assess (dim_class d) ev = Inr s"
proof -
  from assms obtain y where "snd (assess_loop ds ev ([], 0, 0)) = Inr y"
    by (cases "snd (assess_loop ds ev ([], 0, 0))") (simp_all add: snd_aggregate)
  then show ?thesis by (rule assess_loop_Inr_all)
qed

lemma reachable_dimensions_after:
  assumes "reachable self" and "snd (aggregate (dimensions self) ev) = Inr x"
  shows "fst (aggregate (dimensions self) ev) =
         map (\<lambda>d. d\<lparr>dim_score := projr (class_assess (dim_class d) ev)\<rparr>) (dimensions AgencyEngine_init)"
proof -
  have all: "\<forall>d\<in>set (dimensions self). \<exists>s. class_assess (dim_class d) ev = Inr s"
    by (rule aggregate_Inr_all [OF assms(2)])
  have "map (\<lambda>d. d\<lparr>dim_score := projr (class_assess (dim_class d) ev)\<rparr>) (dimensions AgencyEngine_init) =
        map (\<lambda>d. d\<lparr>dim_score := projr (class_assess (dim_class d) ev)\<rparr>)
          (map (\<lambda>d. d\<lparr>dim_score := 0\<rparr>) (dimensions self))"
    by (simp only: reachable_dimensions [OF assms(1)])
  also have "\<dots> = map (\<lambda>d. d\<lparr>dim_score := projr (class_assess (dim_class d) ev)\<rparr>) (dimensions self)"
    by (simp add: comp_def)
  finally show ?thesis by (simp add: aggregate_returns [OF all])
qed

lemma result_Inr_aggregate:
  assumes "fst (assess_agency hexdigest now self n ev cs) = Inr r"
  shows "\<exists>x. snd (aggregate (dimensions self) ev) = Inr x"
  using assms
  by (cases "snd (aggregate (dimensions self) ev)") (simp_all add: fst_assess_agency)

subsection \<open>Bounds of the composite\<close>





subsection \<open>Example records out of range\<close>





subsection \<open>The frame of the loop\<close>






section \<open>The reference scenario\<close>

text \<open>
  Claim C1, as the code has it. On every reachable engine, \<open>assess_agency\<close> with
  the \<open>ORION_Agent\<close> evidence of \<open>run_reference_suite\<close> and consciousness score
  65 returns a report whose composite agency score is 78.8 (the weighted sum is
  5.436 of a total weight 6.9, that is 453/575), whose interpretation is the
  FULL AGENCY label, and whose correlation record has score 78.8, ratio 1.21 and
  the ALIGNED label.
\<close>

theorem ORION_reference_report:
  assumes "reachable self"
  shows "case fst (assess_agency hexdigest now self ''ORION_Agent'' ORION_Agent_evidence (Some (PyInt 65))) of
           Inl e \<Rightarrow> False
         | Inr r \<Rightarrow>
             r_agency_score r = 78.8
             \<and> r_interpretation r = FULL_AGENCY
             \<and> r_consciousness_correlation r =
                 Some \<lparr>corr_consciousness_score = PyInt 65, corr_agency_score = 78.8,
                        corr_ratio = 1.21, corr_interpretation = ALIGNED\<rparr>"
  by (simp only: reachable_result [OF assms] ORION_result_init) simp

text \<open>
  The theorem of C1 at the freshly constructed engine.
\<close>

theorem ORION_reference_report_witness:
  "reachable AgencyEngine_init
   \<and> (case fst (assess_agency sample_hexdigest sample_now AgencyEngine_init ''ORION_Agent''
                  ORION_Agent_evidence (Some (PyInt 65))) of
           Inl e \<Rightarrow> False
         | Inr r \<Rightarrow>
             r_agency_score r = 78.8
             \<and> r_interpretation r = FULL_AGENCY
             \<and> r_consciousness_correlation r =
                 Some \<lparr>corr_consciousness_score = PyInt 65, corr_agency_score = 78.8,
                        corr_ratio = 1.21, corr_interpretation = ALIGNED\<rparr>)"
  using ORION_reference_report [OF reachable_init, of sample_hexdigest sample_now] reachable_init
  by blast

text \<open>
  Claim C1 as the specification words it (a composite between 65.5 and 66.5, the
  PARTIAL AGENCY label, the PROPORTIONAL label) fails on the freshly constructed engine.
\<close>

theorem ORION_golden_values_counterexample:
  "\<not> (case fst (assess_agency sample_hexdigest sample_now AgencyEngine_init ''ORION_Agent''
                  ORION_Agent_evidence (Some (PyInt 65))) of
           Inl e \<Rightarrow> False
         | Inr r \<Rightarrow>
             65.5 \<le> r_agency_score r \<and> r_agency_score r \<le> 66.5
             \<and> r_interpretation r = PARTIAL_AGENCY
             \<and> map_option corr_interpretation (r_consciousness_correlation r) = Some PROPORTIONAL)"
  by (simp add: ORION_result_init)

section \<open>Ranges of the scores\<close>




section \<open>The consciousness correlation\<close>

text \<open>
  Claim C3. The correlation label is ALIGNED exactly when the normalised consciousness
  and the agency both exceed 0.5; PARADOX exactly when the consciousness exceeds 0.5
  and the agency is below 0.3; ZOMBIE exactly when the consciousness is below 0.2 and
  the agency exceeds 0.5; PROPORTIONAL exactly when none of the three conditions holds.
  (The three conditions exclude each other, so the first match of the ordered list is
  the only match.) When the loop returns the composite \<open>a\<close> and a consciousness score
  \<open>cs\<close> that can be made a float is supplied, the call returns and the label of the
  report is the one for \<open>cs / 100\<close> and \<open>a\<close>. On a reachable engine, the all-zero
  evidence with consciousness score 0.3 gives score 0 in every dimension, composite 0,
  the MINIMAL AGENCY label and the PROPORTIONAL label.
\<close>

theorem correlation_decision_list:
  assumes "reachable self"
  shows "(interpret_correlation c_score a_score = ALIGNED \<longleftrightarrow> 0.5 < c_score \<and> 0.5 < a_score)
   \<and> (interpret_correlation c_score a_score = PARADOX \<longleftrightarrow> 0.5 < c_score \<and> a_score < 0.3)
   \<and> (interpret_correlation c_score a_score = ZOMBIE \<longleftrightarrow> c_score < 0.2 \<and> 0.5 < a_score)
   \<and> (interpret_correlation c_score a_score = PROPORTIONAL \<longleftrightarrow>
        \<not> (0.5 < c_score \<and> 0.5 < a_score) \<and> \<not> (0.5 < c_score \<and> a_score < 0.3) \<and>
        \<not> (c_score < 0.2 \<and> 0.5 < a_score))
   \<and> (snd (aggregate (dimensions self) evidence) = Inr (dsc, a) \<and> representable cs \<longrightarrow>
        (case fst (assess_agency hexdigest now self system_name evidence (Some cs)) of
           Inl e \<Rightarrow> False
         | Inr r \<Rightarrow>
             map_option corr_interpretation (r_consciousness_correlation r) =
               Some (interpret_correlation (num_val cs / 100.0) a)))
   \<and> fst (assess d all_zero_evidence) = Inr 0
   \<and> (case fst (assess_agency hexdigest now self system_name all_zero_evidence (Some (PyFloat 0.3))) of
         Inl e \<Rightarrow> False
       | Inr r \<Rightarrow>
           map (entry_score \<circ> snd) (r_dimensions r) = [0, 0, 0, 0, 0, 0, 0]
           \<and> r_agency_score r = 0
           \<and> r_interpretation r = MINIMAL_AGENCY
           \<and> map_option corr_interpretation (r_consciousness_correlation r) = Some PROPORTIONAL)"
proof -
  have labels: "(interpret_correlation c_score a_score = ALIGNED \<longleftrightarrow> 0.5 < c_score \<and> 0.5 < a_score)
   \<and> (interpret_correlation c_score a_score = PARADOX \<longleftrightarrow> 0.5 < c_score \<and> a_score < 0.3)
   \<and> (interpret_correlation c_score a_score = ZOMBIE \<longleftrightarrow> c_score < 0.2 \<and> 0.5 < a_score)
   \<and> (interpret_correlation c_score a_score = PROPORTIONAL \<longleftrightarrow>
        \<not> (0.5 < c_score \<and> 0.5 < a_score) \<and> \<not> (0.5 < c_score \<and> a_score < 0.3) \<and>
        \<not> (c_score < 0.2 \<and> 0.5 < a_score))"
    by (auto simp add: interpret_correlation_def)
  have rep: "snd (aggregate (dimensions self) evidence) = Inr (dsc, a) \<and> representable cs \<longrightarrow>
        (case fst (assess_agency hexdigest now self system_name evidence (Some cs)) of
           Inl e \<Rightarrow> False
         | Inr r \<Rightarrow>
             map_option corr_interpretation (r_consciousness_correlation r) =
               Some (interpret_correlation (num_val cs / 100.0) a))"
  proof
    assume h: "snd (aggregate (dimensions self) evidence) = Inr (dsc, a) \<and> representable cs"
    then have c: "\<forall>c. Some cs = Some c \<longrightarrow> representable c" by simp
    from h have g: "snd (aggregate (dimensions self) evidence) = Inr (dsc, a)" by simp
    show "case fst (assess_agency hexdigest now self system_name evidence (Some cs)) of
           Inl e \<Rightarrow> False
         | Inr r \<Rightarrow>
             map_option corr_interpretation (r_consciousness_correlation r) =
               Some (interpret_correlation (num_val cs / 100.0) a)"
      by (simp add: assess_agency_returns [OF g c])
  qed
  have z: "fst (assess d all_zero_evidence) = Inr 0"
    by (simp add: fst_assess all_zero_scores)
  obtain zs where agg0: "snd (aggregate (dimensions AgencyEngine_init) all_zero_evidence) = Inr (zs, 0)"
    and zs: "map (entry_score \<circ> snd) zs = [0, 0, 0, 0, 0, 0, 0]"
    using all_zero_aggregate
    by (cases "snd (aggregate (dimensions AgencyEngine_init) all_zero_evidence)") auto
  have agg: "snd (aggregate (dimensions self) all_zero_evidence) = Inr (zs, 0)"
    by (simp only: reachable_aggregate [OF assms] agg0)
  have c: "\<forall>c. Some (PyFloat 0.3) = Some c \<longrightarrow> representable c" by simp
  have scen: "case fst (assess_agency hexdigest now self system_name all_zero_evidence (Some (PyFloat 0.3))) of
         Inl e \<Rightarrow> False
       | Inr r \<Rightarrow>
           map (entry_score \<circ> snd) (r_dimensions r) = [0, 0, 0, 0, 0, 0, 0]
           \<and> r_agency_score r = 0
           \<and> r_interpretation r = MINIMAL_AGENCY
           \<and> map_option corr_interpretation (r_consciousness_correlation r) = Some PROPORTIONAL"
    by (simp add: assess_agency_returns [OF agg c] zs py_round_0 interpret_agency_def
          interpret_correlation_def)
  from labels rep z scen show ?thesis by (intro conjI) blast+
qed

text \<open>
  The theorem of C3 at the freshly constructed engine: the \<open>ORION_Agent\<close> call with
  \<open>c_score = 0.65\<close> and \<open>a_score = 453/575\<close>, and the all-zero scenario.
\<close>

theorem correlation_decision_list_witness:
  "reachable AgencyEngine_init
   \<and> representable (PyInt 65)
   \<and> snd (aggregate (dimensions AgencyEngine_init) ORION_Agent_evidence) =
       Inr (fst (projr (snd (aggregate (dimensions AgencyEngine_init) ORION_Agent_evidence))), 453 / 575)
   \<and> (case fst (assess_agency sample_hexdigest sample_now AgencyEngine_init ''ORION_Agent''
                  ORION_Agent_evidence (Some (PyInt 65))) of
         Inl e \<Rightarrow> False
       | Inr r \<Rightarrow>
           map_option corr_interpretation (r_consciousness_correlation r) =
             Some (interpret_correlation (num_val (PyInt 65) / 100.0) (453 / 575)))
   \<and> (interpret_correlation (65 / 100) (453 / 575) = ALIGNED \<longleftrightarrow>
        0.5 < (65 / 100 :: real) \<and> 0.5 < (453 / 575 :: real))
   \<and> (case fst (assess_agency sample_hexdigest sample_now AgencyEngine_init ''Thermostat''
                  all_zero_evidence (Some (PyFloat 0.3))) of
         Inl e \<Rightarrow> False
       | Inr r \<Rightarrow>
           map (entry_score \<circ> snd) (r_dimensions r) = [0, 0, 0, 0, 0, 0, 0]
           \<and> r_agency_score r = 0
           \<and> r_interpretation r = MINIMAL_AGENCY
           \<and> map_option corr_interpretation (r_consciousness_correlation r) = Some PROPORTIONAL)"
proof -
  have r: "representable (PyInt 65)" by (rule small_int_representable) simp
  have g: "snd (aggregate (dimensions AgencyEngine_init) ORION_Agent_evidence) =
       Inr (fst (projr (snd (aggregate (dimensions AgencyEngine_init) ORION_Agent_evidence))), 453 / 575)"
    by (simp add: ORION_aggregate)
  from correlation_decision_list [OF reachable_init, where c_score = "65 / 100" and a_score = "453 / 575"
      and evidence = ORION_Agent_evidence and cs = "PyInt 65" and a = "453 / 575"
      and dsc = "fst (projr (snd (aggregate (dimensions AgencyEngine_init) ORION_Agent_evidence)))"
      and hexdigest = sample_hexdigest and now = sample_now and system_name = "''ORION_Agent''"
      and d = SocialAgency_init] r g
  have a: "(case fst (assess_agency sample_hexdigest sample_now AgencyEngine_init ''ORION_Agent''
                  ORION_Agent_evidence (Some (PyInt 65))) of
         Inl e \<Rightarrow> False
       | Inr r \<Rightarrow>
           map_option corr_interpretation (r_consciousness_correlation r) =
             Some (interpret_correlation (num_val (PyInt 65) / 100.0) (453 / 575)))
     \<and> (interpret_correlation (65 / 100) (453 / 575) = ALIGNED \<longleftrightarrow>
        0.5 < (65 / 100 :: real) \<and> 0.5 < (453 / 575 :: real))"
    by blast
  from correlation_decision_list [OF reachable_init, where hexdigest = sample_hexdigest
      and now = sample_now and system_name = "''Thermostat''"]
  have b: "case fst (assess_agency sample_hexdigest sample_now AgencyEngine_init ''Thermostat''
                  all_zero_evidence (Some (PyFloat 0.3))) of
         Inl e \<Rightarrow> False
       | Inr r \<Rightarrow>
           map (entry_score \<circ> snd) (r_dimensions r) = [0, 0, 0, 0, 0, 0, 0]
           \<and> r_agency_score r = 0
           \<and> r_interpretation r = MINIMAL_AGENCY
           \<and> map_option corr_interpretation (r_consciousness_correlation r) = Some PROPORTIONAL"
    by blast
  from reachable_init r g a b show ?thesis by (intro conjI) blast+
qed

section \<open>Determinism\<close>

text \<open>
  Claim C4. Two calls of \<open>assess_agency\<close> with the same subject name, evidence and
  consciousness score, on any two reachable engines, at any two clock readings and
  with any two digests, both raise or both return, and the reports they return agree
  in every field but the timestamp and the proof: in particular in the dimension
  scores, the composite agency score, the interpretation label and the correlation
  record. When the calls return, the dimension objects of the two engines agree as well.
\<close>

theorem assess_agency_deterministic:
  assumes "reachable self_a" and "reachable self_b"
  shows "map_sum id erase_volatile
           (fst (assess_agency hexdigest_a now_a self_a system_name evidence consciousness_score)) =
         map_sum id erase_volatile
           (fst (assess_agency hexdigest_b now_b self_b system_name evidence consciousness_score))
       \<and> map_sum id r_dimensions
           (fst (assess_agency hexdigest_a now_a self_a system_name evidence consciousness_score)) =
         map_sum id r_dimensions
           (fst (assess_agency hexdigest_b now_b self_b system_name evidence consciousness_score))
       \<and> map_sum id r_agency_score
           (fst (assess_agency hexdigest_a now_a self_a system_name evidence consciousness_score)) =
         map_sum id r_agency_score
           (fst (assess_agency hexdigest_b now_b self_b system_name evidence consciousness_score))
       \<and> map_sum id r_interpretation
           (fst (assess_agency hexdigest_a now_a self_a system_name evidence consciousness_score)) =
         map_sum id r_interpretation
           (fst (assess_agency hexdigest_b now_b self_b system_name evidence consciousness_score))
       \<and> map_sum id r_consciousness_correlation
           (fst (assess_agency hexdigest_a now_a self_a system_name evidence consciousness_score)) =
         map_sum id r_consciousness_correlation
           (fst (assess_agency hexdigest_b now_b self_b system_name evidence consciousness_score))
       \<and> (fst (assess_agency hexdigest_a now_a self_a system_name evidence consciousness_score) = Inr r
          \<longrightarrow> dimensions (snd (assess_agency hexdigest_a now_a self_a system_name evidence consciousness_score)) =
              dimensions (snd (assess_agency hexdigest_b now_b self_b system_name evidence consciousness_score)))"
proof -
  have agg: "snd (aggregate (dimensions self_a) evidence) = snd (aggregate (dimensions self_b) evidence)"
    by (simp only: reachable_aggregate [OF assms(1)] reachable_aggregate [OF assms(2)])
  have a: "map_sum id erase_volatile
           (fst (assess_agency hexdigest_a now_a self_a system_name evidence consciousness_score)) =
         map_sum id erase_volatile
           (fst (assess_agency hexdigest_b now_b self_b system_name evidence consciousness_score))"
    by (simp only: erase_volatile_result agg)
  have b: "fst (assess_agency hexdigest_a now_a self_a system_name evidence consciousness_score) = Inr r
          \<longrightarrow> dimensions (snd (assess_agency hexdigest_a now_a self_a system_name evidence consciousness_score)) =
              dimensions (snd (assess_agency hexdigest_b now_b self_b system_name evidence consciousness_score))"
  proof
    assume "fst (assess_agency hexdigest_a now_a self_a system_name evidence consciousness_score) = Inr r"
    then obtain x where x: "snd (aggregate (dimensions self_a) evidence) = Inr x"
      using result_Inr_aggregate by blast
    then have y: "snd (aggregate (dimensions self_b) evidence) = Inr x" by (simp only: agg [symmetric])
    show "dimensions (snd (assess_agency hexdigest_a now_a self_a system_name evidence consciousness_score)) =
              dimensions (snd (assess_agency hexdigest_b now_b self_b system_name evidence consciousness_score))"
      by (simp only: dimensions_assess_agency reachable_dimensions_after [OF assms(1) x]
            reachable_dimensions_after [OF assms(2) y])
  qed
  from a b show ?thesis by (simp only: result_fields simp_thms)
qed

text \<open>
  The theorem of C4 for the freshly constructed engine and the engine after one
  earlier call, at two different clock readings and with two different digests.
\<close>

theorem assess_agency_deterministic_witness:
  "reachable AgencyEngine_init
   \<and> reachable (snd (assess_agency sample_hexdigest sample_now AgencyEngine_init ''Thermostat''
        all_zero_evidence (Some (PyFloat 0.3))))
   \<and> (\<exists>r. fst (assess_agency sample_hexdigest sample_now AgencyEngine_init
           ''ORION_Agent'' ORION_Agent_evidence (Some (PyInt 65))) = Inr r)
   \<and> map_sum id erase_volatile
       (fst (assess_agency sample_hexdigest sample_now AgencyEngine_init
          ''ORION_Agent'' ORION_Agent_evidence (Some (PyInt 65)))) =
     map_sum id erase_volatile
       (fst (assess_agency (replicate 64 (CHR ''f'')) ''2025-06-30T12:00:00+00:00''
          (snd (assess_agency sample_hexdigest sample_now AgencyEngine_init ''Thermostat''
             all_zero_evidence (Some (PyFloat 0.3))))
          ''ORION_Agent'' ORION_Agent_evidence (Some (PyInt 65))))
   \<and> dimensions (snd (assess_agency sample_hexdigest sample_now AgencyEngine_init
          ''ORION_Agent'' ORION_Agent_evidence (Some (PyInt 65)))) =
     dimensions (snd (assess_agency (replicate 64 (CHR ''f'')) ''2025-06-30T12:00:00+00:00''
          (snd (assess_agency sample_hexdigest sample_now AgencyEngine_init ''Thermostat''
             all_zero_evidence (Some (PyFloat 0.3))))
          ''ORION_Agent'' ORION_Agent_evidence (Some (PyInt 65))))"
proof -
  have a: "reachable AgencyEngine_init" by (rule reachable_init)
  have b: "reachable (snd (assess_agency sample_hexdigest sample_now AgencyEngine_init ''Thermostat''
        all_zero_evidence (Some (PyFloat 0.3))))"
    by (rule reachable_assess [OF a])
  obtain r where r: "fst (assess_agency sample_hexdigest sample_now AgencyEngine_init
           ''ORION_Agent'' ORION_Agent_evidence (Some (PyInt 65))) = Inr r"
    by (simp add: ORION_result_init)
  from assess_agency_deterministic [OF a b, where hexdigest_a = sample_hexdigest and now_a = sample_now
      and hexdigest_b = "replicate 64 (CHR ''f'')" and now_b = "''2025-06-30T12:00:00+00:00''"
      and system_name = "''ORION_Agent''" and evidence = ORION_Agent_evidence
      and consciousness_score = "Some (PyInt 65)" and r = r] a b r
  show ?thesis by blast
qed

section \<open>The composite\<close>

text \<open>
  Claim C5. On a reachable engine, when the seven formulas return the scores
  \<open>s_agf\<close>, \<open>s_cr\<close>, \<open>s_sm\<close>, \<open>s_er\<close>, \<open>s_cg\<close>, \<open>s_tp\<close>, \<open>s_sa\<close>, the local
  \<open>agency_score\<close> is the sum of the scores, each times its weight, divided by
  \<open>max(0.001, sum of the weights)\<close>; the dimensions are, in order, Autonomous Goal
  Formation, Counterfactual Reasoning, Self-Modification, Ethical Reasoning, Creative
  Generation, Temporal Planning and Social Agency with the weights 1.2, 1.0, 1.1, 0.9,
  1.0, 0.9, 0.8. The seven formulas return when every int among the values read is
  within the range of the doubles. For any list of dimension objects whose methods
  return, the loop computes the weighted sum of the scores over the floored sum of the
  weights. The composite agency score of the report is that value times 100, rounded
  to one decimal.
\<close>

theorem composite_formula:
  assumes "reachable self"
  shows "(AutonomousGoalFormation_assess evidence = Inr s_agf
          \<and> CounterfactualReasoning_assess evidence = Inr s_cr
          \<and> SelfModification_assess evidence = Inr s_sm
          \<and> EthicalReasoning_assess evidence = Inr s_er
          \<and> CreativeGeneration_assess evidence = Inr s_cg
          \<and> TemporalPlanning_assess evidence = Inr s_tp
          \<and> SocialAgency_assess evidence = Inr s_sa
          \<longrightarrow> map_sum id snd (snd (aggregate (dimensions self) evidence)) =
                Inr ((s_agf * 1.2 + s_cr * 1.0 + s_sm * 1.1 + s_er * 0.9 + s_cg * 1.0 + s_tp * 0.9 + s_sa * 0.8) /
                     max 0.001 (1.2 + 1.0 + 1.1 + 0.9 + 1.0 + 0.9 + 0.8)))
       \<and> ((\<forall>k\<in>set evidence_fields. representable (dict_get evidence k (PyInt 0)))
          \<longrightarrow> (\<exists>t_agf t_cr t_sm t_er t_cg t_tp t_sa.
                AutonomousGoalFormation_assess evidence = Inr t_agf
                \<and> CounterfactualReasoning_assess evidence = Inr t_cr
                \<and> SelfModification_assess evidence = Inr t_sm
                \<and> EthicalReasoning_assess evidence = Inr t_er
                \<and> CreativeGeneration_assess evidence = Inr t_cg
                \<and> TemporalPlanning_assess evidence = Inr t_tp
                \<and> SocialAgency_assess evidence = Inr t_sa))
       \<and> ((\<forall>d\<in>set ds. \<exists>s. fst (assess d evidence) = Inr s)
          \<longrightarrow> map_sum id snd (snd (aggregate ds evidence)) =
                Inr ((\<Sum>d\<leftarrow>ds. projr (fst (assess d evidence)) * dim_weight d) /
                     max 0.001 (\<Sum>d\<leftarrow>ds. dim_weight d)))
       \<and> map (\<lambda>d. (dim_name d, dim_weight d)) (dimensions self) =
           [(''Autonomous Goal Formation'', 1.2), (''Counterfactual Reasoning'', 1.0),
            (''Self-Modification'', 1.1), (''Ethical Reasoning'', 0.9),
            (''Creative Generation'', 1.0), (''Temporal Planning'', 0.9),
            (''Social Agency'', 0.8)]
       \<and> (snd (aggregate (dimensions self) evidence) = Inr (dsc, a)
           \<and> (\<forall>c. consciousness_score = Some c \<longrightarrow> representable c)
          \<longrightarrow> (case fst (assess_agency hexdigest now self system_name evidence consciousness_score) of
                 Inl e \<Rightarrow> False
               | Inr r \<Rightarrow> r_agency_score r = py_round (a * 100) 1))"
proof -
  have a: "AutonomousGoalFormation_assess evidence = Inr s_agf
          \<and> CounterfactualReasoning_assess evidence = Inr s_cr
          \<and> SelfModification_assess evidence = Inr s_sm
          \<and> EthicalReasoning_assess evidence = Inr s_er
          \<and> CreativeGeneration_assess evidence = Inr s_cg
          \<and> TemporalPlanning_assess evidence = Inr s_tp
          \<and> SocialAgency_assess evidence = Inr s_sa
          \<longrightarrow> map_sum id snd (snd (aggregate (dimensions self) evidence)) =
                Inr ((s_agf * 1.2 + s_cr * 1.0 + s_sm * 1.1 + s_er * 0.9 + s_cg * 1.0 + s_tp * 0.9 + s_sa * 0.8) /
                     max 0.001 (1.2 + 1.0 + 1.1 + 0.9 + 1.0 + 0.9 + 0.8))"
  proof
    assume h: "AutonomousGoalFormation_assess evidence = Inr s_agf
          \<and> CounterfactualReasoning_assess evidence = Inr s_cr
          \<and> SelfModification_assess evidence = Inr s_sm
          \<and> EthicalReasoning_assess evidence = Inr s_er
          \<and> CreativeGeneration_assess evidence = Inr s_cg
          \<and> TemporalPlanning_assess evidence = Inr s_tp
          \<and> SocialAgency_assess evidence = Inr s_sa"
    have "snd (aggregate (dimensions self) evidence) =
          snd (aggregate (dimensions AgencyEngine_init) evidence)"
      by (rule reachable_aggregate [OF assms])
    then show "map_sum id snd (snd (aggregate (dimensions self) evidence)) =
                Inr ((s_agf * 1.2 + s_cr * 1.0 + s_sm * 1.1 + s_er * 0.9 + s_cg * 1.0 + s_tp * 0.9 + s_sa * 0.8) /
                     max 0.001 (1.2 + 1.0 + 1.1 + 0.9 + 1.0 + 0.9 + 0.8))"
      using h by (simp add: aggregate_init_returns(1))
  qed
  have b: "(\<forall>k\<in>set evidence_fields. representable (dict_get evidence k (PyInt 0)))
          \<longrightarrow> (\<exists>t_agf t_cr t_sm t_er t_cg t_tp t_sa.
                AutonomousGoalFormation_assess evidence = Inr t_agf
                \<and> CounterfactualReasoning_assess evidence = Inr t_cr
                \<and> SelfModification_assess evidence = Inr t_sm
                \<and> EthicalReasoning_assess evidence = Inr t_er
                \<and> CreativeGeneration_assess evidence = Inr t_cg
                \<and> TemporalPlanning_assess evidence = Inr t_tp
                \<and> SocialAgency_assess evidence = Inr t_sa)"
  proof
    assume h: "\<forall>k\<in>set evidence_fields. representable (dict_get evidence k (PyInt 0))"
    from evidence_fields_returns [OF h, of AutonomousGoalFormation]
      evidence_fields_returns [OF h, of CounterfactualReasoning]
      evidence_fields_returns [OF h, of SelfModification]
      evidence_fields_returns [OF h, of EthicalReasoning]
      evidence_fields_returns [OF h, of CreativeGeneration]
      evidence_fields_returns [OF h, of TemporalPlanning]
      evidence_fields_returns [OF h, of SocialAgency]
    show "\<exists>t_agf t_cr t_sm t_er t_cg t_tp t_sa.
                AutonomousGoalFormation_assess evidence = Inr t_agf
                \<and> CounterfactualReasoning_assess evidence = Inr t_cr
                \<and> SelfModification_assess evidence = Inr t_sm
                \<and> EthicalReasoning_assess evidence = Inr t_er
                \<and> CreativeGeneration_assess evidence = Inr t_cg
                \<and> TemporalPlanning_assess evidence = Inr t_tp
                \<and> SocialAgency_assess evidence = Inr t_sa"
      by simp
  qed
  have c: "(\<forall>d\<in>set ds. \<exists>s. fst (assess d evidence) = Inr s)
          \<longrightarrow> map_sum id snd (snd (aggregate ds evidence)) =
                Inr ((\<Sum>d\<leftarrow>ds. projr (fst (assess d evidence)) * dim_weight d) /
                     max 0.001 (\<Sum>d\<leftarrow>ds. dim_weight d))"
  proof
    assume "\<forall>d\<in>set ds. \<exists>s. fst (assess d evidence) = Inr s"
    then have h: "\<forall>d\<in>set ds. \<exists>s. class_assess (dim_class d) evidence = Inr s"
      by (simp add: fst_assess)
    show "map_sum id snd (snd (aggregate ds evidence)) =
                Inr ((\<Sum>d\<leftarrow>ds. projr (fst (assess d evidence)) * dim_weight d) /
                     max 0.001 (\<Sum>d\<leftarrow>ds. dim_weight d))"
      by (simp add: aggregate_returns [OF h] fst_assess)
  qed
  have "map (\<lambda>d. (dim_name d, dim_weight d)) (map (\<lambda>d. d\<lparr>dim_score := 0\<rparr>) (dimensions self)) =
        map (\<lambda>d. (dim_name d, dim_weight d)) (dimensions AgencyEngine_init)"
    by (simp only: reachable_dimensions [OF assms])
  then have d: "map (\<lambda>d. (dim_name d, dim_weight d)) (dimensions self) =
           [(''Autonomous Goal Formation'', 1.2), (''Counterfactual Reasoning'', 1.0),
            (''Self-Modification'', 1.1), (''Ethical Reasoning'', 0.9),
            (''Creative Generation'', 1.0), (''Temporal Planning'', 0.9),
            (''Social Agency'', 0.8)]"
    by (simp add: comp_def init_defs)
  have e: "snd (aggregate (dimensions self) evidence) = Inr (dsc, a)
           \<and> (\<forall>c. consciousness_score = Some c \<longrightarrow> representable c)
          \<longrightarrow> (case fst (assess_agency hexdigest now self system_name evidence consciousness_score) of
                 Inl e \<Rightarrow> False
               | Inr r \<Rightarrow> r_agency_score r = py_round (a * 100) 1)"
  proof
    assume h: "snd (aggregate (dimensions self) evidence) = Inr (dsc, a)
           \<and> (\<forall>c. consciousness_score = Some c \<longrightarrow> representable c)"
    then have h1: "snd (aggregate (dimensions self) evidence) = Inr (dsc, a)"
      and h2: "\<forall>c. consciousness_score = Some c \<longrightarrow> representable c" by simp_all
    show "case fst (assess_agency hexdigest now self system_name evidence consciousness_score) of
                 Inl e \<Rightarrow> False
               | Inr r \<Rightarrow> r_agency_score r = py_round (a * 100) 1"
      by (simp add: assess_agency_returns [OF h1 h2])
  qed
  from a b c d e show ?thesis by (intro conjI)
qed

text \<open>
  The theorem of C5 at the freshly constructed engine and the \<open>ORION_Agent\<close> evidence.
\<close>

theorem composite_formula_witness:
  "reachable AgencyEngine_init
   \<and> AutonomousGoalFormation_assess ORION_Agent_evidence = Inr 0.85
   \<and> CounterfactualReasoning_assess ORION_Agent_evidence = Inr 0.8
   \<and> SelfModification_assess ORION_Agent_evidence = Inr 0.85
   \<and> EthicalReasoning_assess ORION_Agent_evidence = Inr (19 / 30)
   \<and> CreativeGeneration_assess ORION_Agent_evidence = Inr 0.85
   \<and> TemporalPlanning_assess ORION_Agent_evidence = Inr 0.85
   \<and> SocialAgency_assess ORION_Agent_evidence = Inr 0.62
   \<and> map_sum id snd (snd (aggregate (dimensions AgencyEngine_init) ORION_Agent_evidence)) =
       Inr ((0.85 * 1.2 + 0.8 * 1.0 + 0.85 * 1.1 + 19 / 30 * 0.9 + 0.85 * 1.0 + 0.85 * 0.9 + 0.62 * 0.8) /
            max 0.001 (1.2 + 1.0 + 1.1 + 0.9 + 1.0 + 0.9 + 0.8))"
  using composite_formula [OF reachable_init, where evidence = ORION_Agent_evidence
      and s_agf = "0.85" and s_cr = "0.8" and s_sm = "0.85" and s_er = "19 / 30" and s_cg = "0.85"
      and s_tp = "0.85" and s_sa = "0.62"]
    reachable_init ORION_scores
  by blast

section \<open>The interpretation bands\<close>

text \<open>
  Claim C6. The interpretation label is FULL AGENCY exactly when the composite exceeds
  0.7, PARTIAL AGENCY exactly when it exceeds 0.4 and is at most 0.7, LIMITED AGENCY
  exactly when it exceeds 0.15 and is at most 0.4, and MINIMAL AGENCY exactly when it
  is at most 0.15; a composite of exactly 0.7 gets the PARTIAL AGENCY label. When the
  loop returns the composite \<open>a\<close> (and the consciousness score, if any, can be made a
  float), the call returns and the label of the report is the one of \<open>a\<close>, unrounded.
\<close>

theorem interpretation_bands:
  "(interpret_agency score = FULL_AGENCY \<longleftrightarrow> 0.7 < score)
   \<and> (interpret_agency score = PARTIAL_AGENCY \<longleftrightarrow> 0.4 < score \<and> score \<le> 0.7)
   \<and> (interpret_agency score = LIMITED_AGENCY \<longleftrightarrow> 0.15 < score \<and> score \<le> 0.4)
   \<and> (interpret_agency score = MINIMAL_AGENCY \<longleftrightarrow> score \<le> 0.15)
   \<and> interpret_agency 0.7 = PARTIAL_AGENCY
   \<and> (snd (aggregate (dimensions self) evidence) = Inr (dsc, a)
       \<and> (\<forall>c. consciousness_score = Some c \<longrightarrow> representable c)
      \<longrightarrow> (case fst (assess_agency hexdigest now self system_name evidence consciousness_score) of
             Inl e \<Rightarrow> False
           | Inr r \<Rightarrow> r_interpretation r = interpret_agency a))"
proof -
  have bands: "(interpret_agency score = FULL_AGENCY \<longleftrightarrow> 0.7 < score)
   \<and> (interpret_agency score = PARTIAL_AGENCY \<longleftrightarrow> 0.4 < score \<and> score \<le> 0.7)
   \<and> (interpret_agency score = LIMITED_AGENCY \<longleftrightarrow> 0.15 < score \<and> score \<le> 0.4)
   \<and> (interpret_agency score = MINIMAL_AGENCY \<longleftrightarrow> score \<le> 0.15)
   \<and> interpret_agency 0.7 = PARTIAL_AGENCY"
    by (simp add: interpret_agency_def)
  have rep: "snd (aggregate (dimensions self) evidence) = Inr (dsc, a)
       \<and> (\<forall>c. consciousness_score = Some c \<longrightarrow> representable c)
      \<longrightarrow> (case fst (assess_agency hexdigest now self system_name evidence consciousness_score) of
             Inl e \<Rightarrow> False
           | Inr r \<Rightarrow> r_interpretation r = interpret_agency a)"
  proof
    assume h: "snd (aggregate (dimensions self) evidence) = Inr (dsc, a)
       \<and> (\<forall>c. consciousness_score = Some c \<longrightarrow> representable c)"
    then have h1: "snd (aggregate (dimensions self) evidence) = Inr (dsc, a)"
      and h2: "\<forall>c. consciousness_score = Some c \<longrightarrow> representable c" by simp_all
    show "case fst (assess_agency hexdigest now self system_name evidence consciousness_score) of
             Inl e \<Rightarrow> False
           | Inr r \<Rightarrow> r_interpretation r = interpret_agency a"
      by (simp add: assess_agency_returns [OF h1 h2])
  qed
  from bands rep show ?thesis by (intro conjI) blast+
qed

text \<open>
  The theorem of C6 at the freshly constructed engine and the \<open>ORION_Agent\<close> evidence.
\<close>

theorem interpretation_bands_witness:
  "snd (aggregate (dimensions AgencyEngine_init) ORION_Agent_evidence) =
     Inr (fst (projr (snd (aggregate (dimensions AgencyEngine_init) ORION_Agent_evidence))), 453 / 575)
   \<and> (case fst (assess_agency sample_hexdigest sample_now AgencyEngine_init ''ORION_Agent''
                  ORION_Agent_evidence None) of
         Inl e \<Rightarrow> False
       | Inr r \<Rightarrow> r_interpretation r = interpret_agency (453 / 575))
   \<and> (interpret_agency (453 / 575) = FULL_AGENCY \<longleftrightarrow> 0.7 < (453 / 575 :: real))
   \<and> interpret_agency (453 / 575) = FULL_AGENCY"
proof -
  have g: "snd (aggregate (dimensions AgencyEngine_init) ORION_Agent_evidence) =
     Inr (fst (projr (snd (aggregate (dimensions AgencyEngine_init) ORION_Agent_evidence))), 453 / 575)"
    by (simp add: ORION_aggregate)
  have n: "\<forall>c. (None :: pynum option) = Some c \<longrightarrow> representable c" by simp
  from interpretation_bands [where score = "453 / 575" and self = AgencyEngine_init
      and evidence = ORION_Agent_evidence and a = "453 / 575"
      and dsc = "fst (projr (snd (aggregate (dimensions AgencyEngine_init) ORION_Agent_evidence)))"
      and consciousness_score = None and hexdigest = sample_hexdigest and now = sample_now
      and system_name = "''ORION_Agent''"] g n
  show ?thesis by simp
qed

section \<open>Defaulting\<close>

text \<open>
  Claim C8. An evidence record all of whose values are 0 (whatever its keys: the
  fifteen fields the methods read, fourteen of them, or others) gives the same result
  of \<open>assess_agency\<close> as the empty record: at the same clock reading and digest the
  same report and the same engine after the call; at any clock readings and digests
  the same report but for timestamp and proof, hence the same dimension scores,
  composite, interpretation label and correlation label, and the same dimension objects.
\<close>

theorem defaulting_contract:
  assumes "\<forall>k v. evidence k = Some v \<longrightarrow> num_val v = 0"
  shows "assess_agency hexdigest now self system_name evidence consciousness_score =
         assess_agency hexdigest now self system_name Map.empty consciousness_score
       \<and> map_sum id erase_volatile
           (fst (assess_agency hexdigest_a now_a self system_name evidence consciousness_score)) =
         map_sum id erase_volatile
           (fst (assess_agency hexdigest_b now_b self system_name Map.empty consciousness_score))
       \<and> dimensions (snd (assess_agency hexdigest_a now_a self system_name evidence consciousness_score)) =
         dimensions (snd (assess_agency hexdigest_b now_b self system_name Map.empty consciousness_score))"
proof -
  have a: "assess_agency hexdigest now self system_name evidence consciousness_score =
         assess_agency hexdigest now self system_name Map.empty consciousness_score"
    by (simp only: assess_agency_def aggregate_zero_valued [OF assms])
  have b: "map_sum id erase_volatile
           (fst (assess_agency hexdigest_a now_a self system_name evidence consciousness_score)) =
         map_sum id erase_volatile
           (fst (assess_agency hexdigest_b now_b self system_name Map.empty consciousness_score))"
    by (simp only: erase_volatile_result aggregate_zero_valued [OF assms])
  have c: "dimensions (snd (assess_agency hexdigest_a now_a self system_name evidence consciousness_score)) =
         dimensions (snd (assess_agency hexdigest_b now_b self system_name Map.empty consciousness_score))"
    by (simp only: dimensions_assess_agency aggregate_zero_valued [OF assms])
  from a b c show ?thesis by (intro conjI)
qed

text \<open>
  The theorem of C8 at the record that maps each of the fifteen fields to 0.
\<close>

theorem defaulting_contract_witness:
  "(\<exists>k. all_zero_evidence k = Some (PyInt 0))
   \<and> assess_agency sample_hexdigest sample_now AgencyEngine_init ''Thermostat''
        all_zero_evidence (Some (PyFloat 0.3)) =
     assess_agency sample_hexdigest sample_now AgencyEngine_init ''Thermostat''
        Map.empty (Some (PyFloat 0.3))"
proof -
  have z: "\<forall>k v. all_zero_evidence k = Some v \<longrightarrow> num_val v = 0"
    by (auto simp add: all_zero_evidence_def dest!: map_of_SomeD)
  have "all_zero_evidence ''goal_novelty'' = Some (PyInt 0)"
    by (simp add: all_zero_evidence_def evidence_fields_def)
  then have e: "\<exists>k. all_zero_evidence k = Some (PyInt 0)" by blast
  from defaulting_contract [OF z, where hexdigest = sample_hexdigest and now = sample_now
      and self = AgencyEngine_init and system_name = "''Thermostat''"
      and consciousness_score = "Some (PyFloat 0.3)"] e
  show ?thesis by blast
qed

section \<open>The effect on the engine\<close>




section \<open>Negative evidence\<close>

text \<open>
  Claim C10. With \<open>goal_novelty = -10\<close> and every other field 0, the Autonomous Goal
  Formation score is \<open>-3\<close>, and the composite agency score of the report of the
  freshly constructed engine is \<open>-52.2\<close>, both below 0 (the call returns when no
  consciousness score is passed, or one that can be made a float). With the float
  \<open>goal_novelty = v\<close> and every other field 0 the score is \<open>min(1, 0.3 v)\<close>: it is
  bounded from above only.
\<close>

theorem negative_evidence_negative_scores:
  "fst (assess AutonomousGoalFormation_init (all_zero_evidence(''goal_novelty'' \<mapsto> PyInt (- 10)))) = Inr (- 3)
   \<and> ((\<forall>c. consciousness_score = Some c \<longrightarrow> representable c) \<longrightarrow>
       (case fst (assess_agency hexdigest now AgencyEngine_init system_name
                    (all_zero_evidence(''goal_novelty'' \<mapsto> PyInt (- 10))) consciousness_score) of
          Inl e \<Rightarrow> False
        | Inr r \<Rightarrow> r_agency_score r = - 52.2 \<and> r_agency_score r < 0))
   \<and> (case fst (assess_agency hexdigest now AgencyEngine_init system_name
                  (all_zero_evidence(''goal_novelty'' \<mapsto> PyInt (- 10))) None) of
         Inl e \<Rightarrow> False
       | Inr r \<Rightarrow> r_agency_score r = - 52.2 \<and> r_agency_score r < 0)
   \<and> AutonomousGoalFormation_assess (all_zero_evidence(''goal_novelty'' \<mapsto> PyFloat v)) =
       Inr (min 1 (v * 0.3))"
proof -
  have a: "fst (assess AutonomousGoalFormation_init (all_zero_evidence(''goal_novelty'' \<mapsto> PyInt (- 10)))) =
           Inr (- 3)"
    by (simp add: fst_assess init_defs negative_novelty_scores)
  obtain dsc where g: "snd (aggregate (dimensions AgencyEngine_init)
        (all_zero_evidence(''goal_novelty'' \<mapsto> PyInt (- 10)))) = Inr (dsc, - 36 / 69)"
    by (simp add: aggregate_init_returns(1) [OF negative_novelty_scores(1) negative_novelty_scores(3-8)])
  have r: "py_round (- 36 / 69 * 100) 1 = - 52.2"
    by (simp add: py_round_def round_half_even_def)
  have b: "(\<forall>c. consciousness_score = Some c \<longrightarrow> representable c) \<longrightarrow>
       (case fst (assess_agency hexdigest now AgencyEngine_init system_name
                    (all_zero_evidence(''goal_novelty'' \<mapsto> PyInt (- 10))) consciousness_score) of
          Inl e \<Rightarrow> False
        | Inr r \<Rightarrow> r_agency_score r = - 52.2 \<and> r_agency_score r < 0)"
  proof
    assume h: "\<forall>c. consciousness_score = Some c \<longrightarrow> representable c"
    show "case fst (assess_agency hexdigest now AgencyEngine_init system_name
                    (all_zero_evidence(''goal_novelty'' \<mapsto> PyInt (- 10))) consciousness_score) of
          Inl e \<Rightarrow> False
        | Inr r \<Rightarrow> r_agency_score r = - 52.2 \<and> r_agency_score r < 0"
      by (simp only: assess_agency_returns [OF g h] r) simp
  qed
  have n: "\<forall>c. (None :: pynum option) = Some c \<longrightarrow> representable c" by simp
  have c: "case fst (assess_agency hexdigest now AgencyEngine_init system_name
                  (all_zero_evidence(''goal_novelty'' \<mapsto> PyInt (- 10))) None) of
         Inl e \<Rightarrow> False
       | Inr r \<Rightarrow> r_agency_score r = - 52.2 \<and> r_agency_score r < 0"
    by (simp only: assess_agency_returns [OF g n] r) simp
  have d: "AutonomousGoalFormation_assess (all_zero_evidence(''goal_novelty'' \<mapsto> PyFloat v)) =
       Inr (min 1 (v * 0.3))"
    by (rule negative_novelty_scores)
  from a b c d show ?thesis by (intro conjI)
qed

text \<open>
  The theorem of C10 with the consciousness score 65.
\<close>

theorem negative_evidence_negative_scores_witness:
  "representable (PyInt 65)
   \<and> (case fst (assess_agency sample_hexdigest sample_now AgencyEngine_init ''subject''
                  (all_zero_evidence(''goal_novelty'' \<mapsto> PyInt (- 10))) (Some (PyInt 65))) of
         Inl e \<Rightarrow> False
       | Inr r \<Rightarrow> r_agency_score r = - 52.2 \<and> r_agency_score r < 0)"
proof -
  have r: "representable (PyInt 65)" by (rule small_int_representable) simp
  then have h: "\<forall>c. Some (PyInt 65) = Some c \<longrightarrow> representable c" by simp
  from negative_evidence_negative_scores [where consciousness_score = "Some (PyInt 65)"
      and hexdigest = sample_hexdigest and now = sample_now and system_name = "''subject''"
      and v = 0] h r
  show ?thesis by blast
qed

end
